theory Spec2Isabelle
  imports Main "HOL-Library.Sublist"
begin

section \<open>Python strings\<close>

text \<open>
  A Python \<open>str\<close> is a sequence of code points. It is modelled as a \<open>string\<close> whose
  characters are the code points below 256 (Latin-1), so that \<open>length\<close> counts what
  Python's \<open>len\<close> counts. Text outside that range is not represented.
\<close>

definition is_space :: "char \<Rightarrow> bool" where
  \<comment> \<open>\<open>str.isspace\<close> for one character; the same class is \<open>\s\<close> of \<open>re\<close>.\<close>
  "is_space c = (let n = (of_char c :: nat)
                 in (9 \<le> n \<and> n \<le> 13) \<or> (28 \<le> n \<and> n \<le> 32) \<or> n = 133 \<or> n = 160)"

definition strip :: "string \<Rightarrow> string" where
  \<comment> \<open>\<open>s.strip()\<close>\<close>
  "strip s = dropWhile is_space (rev (dropWhile is_space (rev s)))"

definition is_alnum :: "char \<Rightarrow> bool" where
  \<comment> \<open>\<open>str.isalnum\<close> for one character\<close>
  "is_alnum c = (let n = (of_char c :: nat)
                 in (48 \<le> n \<and> n \<le> 57) \<or> (65 \<le> n \<and> n \<le> 90) \<or> (97 \<le> n \<and> n \<le> 122)
                    \<or> n = 170 \<or> n = 178 \<or> n = 179 \<or> n = 181 \<or> n = 185 \<or> n = 186
                    \<or> (188 \<le> n \<and> n \<le> 190) \<or> (192 \<le> n \<and> n \<le> 214)
                    \<or> (216 \<le> n \<and> n \<le> 246) \<or> (248 \<le> n \<and> n \<le> 255))"

definition lower_char :: "char \<Rightarrow> char" where
  \<comment> \<open>the lower-case letter is 32 above the upper-case one: bit 5 is set\<close>
  "lower_char c = (let n = (of_char c :: nat)
                   in if (65 \<le> n \<and> n \<le> 90) \<or> (192 \<le> n \<and> n \<le> 222 \<and> n \<noteq> 215)
                      then (case c of Char b0 b1 b2 b3 b4 b5 b6 b7 \<Rightarrow> Char b0 b1 b2 b3 b4 True b6 b7)
                      else c)"

definition lower :: "string \<Rightarrow> string" where
  \<comment> \<open>\<open>s.lower()\<close>\<close>
  "lower s = map lower_char s"

function replace_str :: "string \<Rightarrow> string \<Rightarrow> string \<Rightarrow> string" where
  \<comment> \<open>\<open>s.replace(old, new)\<close>: occurrences are replaced from the left, without overlap\<close>
  "replace_str old new [] = (if old = [] then new else [])"
| "replace_str old new (c # cs) =
     (if old = [] then new @ c # replace_str old new cs
      else if prefix old (c # cs) then new @ replace_str old new (drop (length old) (c # cs))
      else c # replace_str old new cs)"
  by pat_completeness auto
termination
  by (relation "measure (\<lambda>(old, new, s). length s)") auto

fun contains :: "string \<Rightarrow> string \<Rightarrow> bool" where
  \<comment> \<open>\<open>sub in s\<close>\<close>
  "contains sub [] = (sub = [])"
| "contains sub (c # cs) = (if prefix sub (c # cs) then True else contains sub cs)"

definition digit_char :: "nat \<Rightarrow> char" where
  "digit_char d = char_of (48 + d)"

function show_nat :: "nat \<Rightarrow> string" where
  "show_nat n = (if n < 10 then [digit_char n] else show_nat (n div 10) @ [digit_char (n mod 10)])"
  by pat_completeness auto
termination
  by (relation "measure id") auto

declare show_nat.simps [simp del]

definition show_int :: "int \<Rightarrow> string" where
  \<comment> \<open>\<open>str(i)\<close> for an \<open>int\<close>\<close>
  "show_int i = (if i < 0 then CHR ''-'' # show_nat (nat (- i)) else show_nat (nat i))"

section \<open>JSON values\<close>

text \<open>
  What \<open>json.loads\<close> returns and \<open>json.dumps\<close> takes. An object is an association
  list; a key bound twice has the binding \<open>map_of\<close> finds. \<open>JNote tag args\<close> stands for a
  piece of formatted prose (an f-string of the source, often Korean) whose characters are
  not modelled: the tag names the template, \<open>args\<close> are the interpolated values. Such a
  text is never empty.
\<close>

datatype jval =
    JNull
  | JBool bool
  | JInt int
  | JStr string
  | JList "jval list"
  | JObj "(string \<times> jval) list"
  | JNote string "jval list"

fun truthy :: "jval \<Rightarrow> bool" where
  \<comment> \<open>Python's truth value of an object\<close>
  "truthy JNull = False"
| "truthy (JBool b) = b"
| "truthy (JInt i) = (i \<noteq> 0)"
| "truthy (JStr s) = (s \<noteq> [])"
| "truthy (JList xs) = (xs \<noteq> [])"
| "truthy (JObj kvs) = (kvs \<noteq> [])"
| "truthy (JNote t args) = True"

definition dict_get :: "(string \<times> jval) list \<Rightarrow> string \<Rightarrow> jval" where
  \<comment> \<open>\<open>d.get(k)\<close>\<close>
  "dict_get d k = (case map_of d k of None \<Rightarrow> JNull | Some v \<Rightarrow> v)"

definition dict_get_default :: "(string \<times> jval) list \<Rightarrow> string \<Rightarrow> jval \<Rightarrow> jval" where
  \<comment> \<open>\<open>d.get(k, default)\<close>\<close>
  "dict_get_default d k dflt = (case map_of d k of None \<Rightarrow> dflt | Some v \<Rightarrow> v)"

definition dict_set :: "(string \<times> jval) list \<Rightarrow> string \<Rightarrow> jval \<Rightarrow> (string \<times> jval) list" where
  \<comment> \<open>\<open>d[k] = v\<close>: an existing key keeps its place, a new key goes to the end\<close>
  "dict_set d k v = (if k \<in> fst ` set d then map (\<lambda>(k', v'). if k' = k then (k', v) else (k', v')) d
                     else d @ [(k, v)])"

fun py_str :: "jval \<Rightarrow> jval" where
  \<comment> \<open>\<open>str(v)\<close>; the rendering of a container is kept symbolic\<close>
  "py_str (JStr s) = JStr s"
| "py_str (JInt i) = JStr (show_int i)"
| "py_str (JBool b) = JStr (if b then ''True'' else ''False'')"
| "py_str JNull = JStr ''None''"
| "py_str v = JNote ''str'' [v]"

section \<open>config/settings.py\<close>

definition AGENT_MAX_TURNS :: nat where
  "AGENT_MAX_TURNS = 20"

definition DATA_FIELDS_TO_EXTRACT :: "string list" where
  "DATA_FIELDS_TO_EXTRACT =
     [''blog_id'', ''blog_name'', ''blog_url'', ''recent_post_date'', ''first_post_date'',
      ''total_posts'', ''blog_creation_date'', ''average_visitors'', ''llm_summary'']"

section \<open>core/data_extractor.py\<close>

definition strip_scheme :: "string \<Rightarrow> string" where
  \<comment> \<open>\<open>re.sub(r'^https?://', '', url)\<close>\<close>
  "strip_scheme url =
     (if prefix ''http://'' url then drop 7 url
      else if prefix ''https://'' url then drop 8 url
      else url)"

definition name_part :: "string \<Rightarrow> string" where
  \<comment> \<open>\<open>"".join(filter(str.isalnum, blog_name.lower().replace(" ", "_")))[:20]\<close>\<close>
  "name_part blog_name = take 20 (filter is_alnum (replace_str '' '' ''_'' (lower blog_name)))"

definition blog_id_part :: "string \<Rightarrow> string" where
  "blog_id_part url =
     (let domain = takeWhile (\<lambda>c. c \<noteq> CHR ''/'') (strip_scheme url);
          domain = replace_str ''www.'' [] domain
      in replace_str ''-'' ''_'' (replace_str ''.'' ''_'' domain))"

fun derive_blog_id :: "jval \<Rightarrow> jval \<Rightarrow> string" where
  \<comment> \<open>\<open>DataExtractor._derive_blog_id\<close>; any exception gives \<open>unknown_blog_id\<close>: a \<open>url\<close>
      that is no \<open>str\<close> fails in \<open>re.sub\<close>, a true \<open>blog_name\<close> that is no \<open>str\<close>
      has no \<open>lower\<close>\<close>
  "derive_blog_id (JStr url) blog_name =
     (if truthy blog_name
      then (case blog_name of
              JStr n \<Rightarrow> blog_id_part url @ ''_'' @ name_part n
            | _ \<Rightarrow> ''unknown_blog_id'')
      else blog_id_part url)"
| "derive_blog_id _ blog_name = ''unknown_blog_id''"

definition field_mapping_table :: "(string \<times> string list) list" where
  "field_mapping_table =
    [(''blog_name'', [''blog_name'', ''title'', ''site_title'', ''website_name'', ''name'', ''blog_title'']),
     (''blog_url'', [''blog_url'', ''url'', ''website_url'', ''site_url'', ''link'']),
     (''recent_post_date'', [''recent_post_date'', ''latest_post_date'', ''last_post_date'',
                             ''newest_post_date'', ''latest_post'']),
     (''first_post_date'', [''first_post_date'', ''first_post_date_info'', ''earliest_post_date'',
                            ''start_date'', ''first_post'']),
     (''total_posts'', [''total_posts'', ''total_posts_info'', ''post_count'', ''article_count'',
                        ''number_of_posts'', ''posts_count'']),
     (''blog_creation_date'', [''blog_creation_date'', ''blog_creation_date_info'', ''created_date'',
                               ''founding_date'', ''launch_date'']),
     (''average_visitors'', [''average_visitors'', ''average_visitors_hint'', ''monthly_visitors'',
                             ''visitor_count'', ''traffic'', ''page_views'']),
     (''llm_summary'', [''llm_summary'', ''main_content_summary'', ''summary'', ''description'',
                        ''about'', ''content_summary''])]"

fun find_source :: "(string \<times> jval) list \<Rightarrow> string list \<Rightarrow> jval" where
  \<comment> \<open>the inner loop: \<open>found_value\<close> is the value of the first source field that is a key
      of the mapping, and stays \<open>None\<close> when no source field is\<close>
  "find_source raw [] = JNull"
| "find_source raw (k # ks) = (case map_of raw k of Some v \<Rightarrow> v | None \<Rightarrow> find_source raw ks)"

definition map_field :: "(string \<times> jval) list \<Rightarrow> (string \<times> jval) list \<Rightarrow> string \<times> string list
                          \<Rightarrow> (string \<times> jval) list" where
  \<comment> \<open>one round of the mapping loop\<close>
  "map_field raw structured_data entry =
     (let target_field = fst entry; found_value = find_source raw (snd entry)
      in if target_field \<notin> set DATA_FIELDS_TO_EXTRACT then structured_data
         else if found_value \<noteq> JNull \<and> found_value \<noteq> JStr []
         then dict_set structured_data target_field
                (if target_field = ''total_posts'' then py_str found_value else found_value)
         else structured_data)"

definition not_found_fill :: "(string \<times> jval) list \<Rightarrow> string \<Rightarrow> (string \<times> jval) list" where
  \<comment> \<open>one round of the last loop\<close>
  "not_found_fill structured_data field =
     (if map_of structured_data field = None \<or> dict_get structured_data field = JNull
         \<or> dict_get structured_data field = JStr []
      then dict_set structured_data field (JStr ''Not Found'') else structured_data)"

definition structure_blog_info :: "jval \<Rightarrow> jval \<Rightarrow> (string \<times> jval) list" where
  \<comment> \<open>\<open>DataExtractor.structure_blog_info\<close>\<close>
  "structure_blog_info raw_info blog_url =
     (let structured_data = map (\<lambda>field. (field, JStr ''Not Found'')) DATA_FIELDS_TO_EXTRACT;
          structured_data = dict_set structured_data ''blog_url'' blog_url
      in case raw_info of
           JObj raw \<Rightarrow>
             (let structured_data = foldl (map_field raw) structured_data field_mapping_table;
                  structured_data = dict_set structured_data ''blog_id''
                     (JStr (derive_blog_id blog_url
                        (dict_get_default structured_data ''blog_name'' (JStr ''Unknown''))))
              in foldl not_found_fill structured_data DATA_FIELDS_TO_EXTRACT)
         | _ \<Rightarrow>
             (let structured_data = dict_set structured_data ''blog_name'' (JStr ''Data Extraction Error'')
              in dict_set structured_data ''blog_id''
                   (JStr (derive_blog_id blog_url (JStr ''Data Extraction Error'')))))"

section \<open>core/browser_controller.py\<close>

record browser_controller =
  driver :: bool  \<comment> \<open>\<open>self.driver is not None\<close>\<close>
  browser_instance_user_count :: int

definition new_browser_controller :: browser_controller where
  \<comment> \<open>\<open>BrowserController.__init__\<close>\<close>
  "new_browser_controller = \<lparr>driver = False, browser_instance_user_count = 0\<rparr>"

datatype py_exception = RuntimeError | TypeError | AttributeError | JSONDecodeError | RecursionError

definition ensure_browser :: "bool \<Rightarrow> browser_controller \<Rightarrow> py_exception option \<times> browser_controller" where
  \<comment> \<open>\<open>BrowserController._ensure_browser\<close>; \<open>init_ok\<close> says whether
      \<open>_init_selenium_driver\<close> returns rather than raises\<close>
  "ensure_browser init_ok b =
     (let b = b\<lparr>browser_instance_user_count := browser_instance_user_count b + 1\<rparr>
      in if \<not> driver b
         then (if init_ok then (None, b\<lparr>driver := True\<rparr>)
               else (Some RuntimeError,
                     b\<lparr>browser_instance_user_count := browser_instance_user_count b - 1\<rparr>))
         else (None, b))"

definition maybe_close_browser :: "bool \<Rightarrow> bool \<Rightarrow> browser_controller \<Rightarrow> browser_controller" where
  \<comment> \<open>\<open>BrowserController._maybe_close_browser(force_close)\<close>; \<open>close_ok\<close> says whether the
      call that quits the driver returns rather than raises (the exception is caught)\<close>
  "maybe_close_browser force_close close_ok b =
     (let b = b\<lparr>browser_instance_user_count := browser_instance_user_count b - 1\<rparr>
      in if force_close \<or> (browser_instance_user_count b \<le> 0 \<and> driver b)
         then (if close_ok then b\<lparr>driver := False\<rparr> else b)
         else if browser_instance_user_count b < 0
         then b\<lparr>browser_instance_user_count := 0\<rparr>
         else b)"

section \<open>tools/tool_definitions.py\<close>

definition TOOLS_SPEC :: "string list" where
  \<comment> \<open>the names of the declared tools, in the order of the list\<close>
  "TOOLS_SPEC = [''search_web_for_blogs'', ''finalize_blog_data_collection'',
                 ''get_webpage_content_and_interact'', ''extract_blog_fields_from_text'',
                 ''finalize_blog_data_collection'']"

section \<open>Conversation state\<close>

text \<open>
  A tool call as the loop reads it. Its arguments are a string that \<open>json.loads\<close>
  decodes (\<open>Json_string j\<close>, with the decoded value), a string that \<open>json.loads\<close>
  rejects with \<open>JSONDecodeError\<close> (\<open>Bad_string\<close>), or an object given in place of a
  string (\<open>Object j\<close>). The content of a tool message is either the \<open>json.dumps\<close> of
  a value or a text that is no JSON.
\<close>

datatype arguments = Json_string jval | Bad_string | Object jval

record tool_call =
  tc_id :: string
  tc_name :: string
  tc_arguments :: arguments

datatype tool_content = Dumped jval | Undecodable jval

datatype message =
    System jval
  | User jval
  | Assistant "string option" "tool_call list"
  | Tool string string tool_content

text \<open>
  Pure helpers of the source whose code is a library's (\<open>json\<close>, \<open>ast\<close>, \<open>hash\<close>) or
  a pattern over Hangul text: they are parameters of the model. \<open>robust_json_parse\<close>
  returns the parsed value, \<open>None\<close> (here \<open>JNull\<close>) when every way it tries fails
  with an exception it catches, and raises what it does not catch (\<open>ast.literal_eval\<close>
  raises \<open>TypeError\<close> on a set of dictionaries, for one). Parsed values are taken to be
  JSON values.
\<close>

record helpers =
  robust_json_parse :: "string \<Rightarrow> py_exception + jval"  \<comment> \<open>the local function of that name\<close>
  json_loads :: "string \<Rightarrow> py_exception + jval"  \<comment> \<open>\<open>json.loads\<close>\<close>
  call_hash :: "jval \<Rightarrow> string"  \<comment> \<open>\<open>abs(hash(json.dumps(args)))\<close> in decimal\<close>
  keyword_of_user_text :: "jval \<Rightarrow> string option"  \<comment> \<open>the keyword patterns on a user message\<close>

section \<open>Patterns of the response interpreter\<close>

definition dquote :: char where "dquote = CHR 0x22"
definition backslash :: char where "backslash = CHR 0x5C"
definition newline :: char where "newline = CHR 0x0A"

definition skip_space :: "string \<Rightarrow> string" where
  \<comment> \<open>\<open>\s*\<close>, greedy\<close>
  "skip_space s = dropWhile is_space s"

fun re_search :: "(string \<Rightarrow> 'a option) \<Rightarrow> string \<Rightarrow> 'a option" where
  \<comment> \<open>\<open>re.search\<close>: the match at the leftmost position that has one\<close>
  "re_search m [] = m []"
| "re_search m (c # cs) = (case m (c # cs) of Some r \<Rightarrow> Some r | None \<Rightarrow> re_search m cs)"

definition key_colon_quote :: "string \<Rightarrow> string \<Rightarrow> string option" where
  \<comment> \<open>\<open>"key"\s*:\s*"\<close> at the start of \<open>s\<close>; the text after the opening quote\<close>
  "key_colon_quote key s =
     (let k = dquote # key @ [dquote]
      in if prefix k s
         then (case skip_space (drop (length k) s) of
                 c # r \<Rightarrow> if c = CHR '':''
                          then (case skip_space r of
                                  q # r' \<Rightarrow> if q = dquote then Some r' else None
                                | [] \<Rightarrow> None)
                          else None
               | [] \<Rightarrow> None)
         else None)"

definition text_at :: "string \<Rightarrow> string option" where
  \<comment> \<open>group 1 of \<open>"text_content"\s*:\s*"([^"]*(?:\\.[^"]*)*)\<close> matched at the start of
      \<open>s\<close>: the greedy \<open>[^"]*\<close> stops before a quote or at the end, where \<open>\\.\<close>
      cannot match\<close>
  "text_at s = map_option (takeWhile (\<lambda>c. c \<noteq> dquote)) (key_colon_quote ''text_content'' s)"

definition text_match :: "string \<Rightarrow> string option" where
  \<comment> \<open>group 1 of \<open>re.search(r'"text_content"\s*:\s*"([^"]*(?:\\.[^"]*)*)', content)\<close>\<close>
  "text_match content = re_search text_at content"

definition url_value :: "string \<Rightarrow> string option" where
  \<comment> \<open>\<open>([^"]+)"\<close>\<close>
  "url_value r = (let v = takeWhile (\<lambda>c. c \<noteq> dquote) r
                  in if v \<noteq> [] \<and> length v < length r then Some v else None)"

definition url_at :: "string \<Rightarrow> string option" where
  \<comment> \<open>group 1 of \<open>"(?:original_)?url"\s*:\s*"([^"]+)"\<close> matched at the start of \<open>s\<close>\<close>
  "url_at s = (case key_colon_quote ''original_url'' s of
                 Some r \<Rightarrow> url_value r
               | None \<Rightarrow> (case key_colon_quote ''url'' s of
                            Some r \<Rightarrow> url_value r
                          | None \<Rightarrow> None))"

definition url_match :: "string \<Rightarrow> string option" where
  \<comment> \<open>group 1 of \<open>re.search(r'"(?:original_)?url"\s*:\s*"([^"]+)"', content)\<close>\<close>
  "url_match content = re_search url_at content"

fun lazy_block :: "string \<Rightarrow> string \<Rightarrow> string option" where
  \<comment> \<open>\<open>[\s\S]*?\}\s*```\<close>: the shortest span that a brace, spaces and a fence follow\<close>
  "lazy_block acc [] = None"
| "lazy_block acc (c # cs) =
     (if c = CHR ''}'' \<and> prefix ''```'' (skip_space cs) then Some (rev (c # acc))
      else lazy_block (c # acc) cs)"

definition markdown_at :: "string \<Rightarrow> string option" where
  \<comment> \<open>group 1 of \<open>```json\s*(\{[\s\S]*?\})\s*```\<close> matched at the start of \<open>s\<close>\<close>
  "markdown_at s = (if prefix ''```json'' s
                    then (case skip_space (drop 7 s) of
                            c # r \<Rightarrow> if c = CHR ''{'' then lazy_block [c] r else None
                          | [] \<Rightarrow> None)
                    else None)"

definition markdown_match :: "string \<Rightarrow> string option" where
  \<comment> \<open>group 1 of \<open>re.search(r'```json\s*(\{[\s\S]*?\})\s*```', content, re.DOTALL)\<close>\<close>
  "markdown_match content = re_search markdown_at content"

section \<open>pipelines/agent_pipeline.py: the response interpreter\<close>

fun recent_url :: "message list \<Rightarrow> py_exception + jval" where
  \<comment> \<open>the scan of the reversed history for the last successful page fetch; the argument
      is the history already reversed. A content that is no JSON is passed over; \<open>get\<close>
      on a decoded content that is no dictionary raises\<close>
  "recent_url [] = Inr JNull"
| "recent_url (Tool i n c # ms) =
     (if n = ''get_webpage_content_and_interact''
      then (case c of
              Undecodable t \<Rightarrow> recent_url ms
            | Dumped (JObj d) \<Rightarrow>
                if dict_get d ''status'' = JStr ''success''
                then Inr (if truthy (dict_get d ''url'') then dict_get d ''url''
                          else dict_get d ''final_url'')
                else recent_url ms
            | Dumped v \<Rightarrow> Inl AttributeError)
      else recent_url ms)"
| "recent_url (m # ms) = recent_url ms"

definition truncate_text :: "string \<Rightarrow> string" where
  "truncate_text t = (if length t > 2000 then take 2000 t @ ''...[TRUNCATED]'' else t)"

definition unescape :: "string \<Rightarrow> string" where
  \<comment> \<open>\<open>text_content.replace('\\n', '\n').replace('\\"', '"')\<close>\<close>
  "unescape t = replace_str [backslash, dquote] [dquote] (replace_str [backslash, CHR ''n''] [newline] t)"

definition narrow_fallback :: "message list \<Rightarrow> string \<Rightarrow> py_exception + jval" where
  \<comment> \<open>step 3 of the interpreter, entered when nothing was parsed and the content names the
      extraction tool: the synthesized call object, or \<open>None\<close>. The history is scanned
      before the text match is looked at\<close>
  "narrow_fallback messages_history content =
     (case recent_url (rev messages_history) of
        Inl e \<Rightarrow> Inl e
      | Inr r \<Rightarrow>
          (case text_match content of
             Some t \<Rightarrow>
               (let text_content = truncate_text (unescape t);
                    original_url = (case url_match content of
                                      Some u \<Rightarrow> JStr u
                                    | None \<Rightarrow> if truthy r then r else JStr ''unknown_url'')
                in Inr (JObj [(''name'', JStr ''extract_blog_fields_from_text''),
                              (''parameters'', JObj [(''text_content'', JStr text_content),
                                                     (''original_url'', original_url)])]))
           | None \<Rightarrow> Inr JNull))"

definition parse_json_content :: "helpers \<Rightarrow> string \<Rightarrow> py_exception + jval" where
  \<comment> \<open>steps 1 and 2: the fenced block, then the whole content when it opens with a brace;
      what \<open>robust_json_parse\<close> raises leaves the loop\<close>
  "parse_json_content h content =
     (let content_cleaned_for_json = strip content
      in case (case markdown_match content_cleaned_for_json of
                 Some j \<Rightarrow> robust_json_parse h j
               | None \<Rightarrow> Inr JNull) of
           Inl e \<Rightarrow> Inl e
         | Inr p1 \<Rightarrow>
             if \<not> truthy p1 \<and> prefix ''{'' content_cleaned_for_json
             then robust_json_parse h content_cleaned_for_json else Inr p1)"

definition parse_content :: "helpers \<Rightarrow> message list \<Rightarrow> string \<Rightarrow> py_exception + jval" where
  \<comment> \<open>steps 1 to 3: \<open>parsed_tool_call_from_content\<close>\<close>
  "parse_content h messages_history content =
     (case parse_json_content h content of
        Inl e \<Rightarrow> Inl e
      | Inr p2 \<Rightarrow>
          if \<not> truthy p2 \<and> contains ''extract_blog_fields_from_text'' content
          then (case narrow_fallback messages_history content of
                  Inl e \<Rightarrow> Inl e
                | Inr v \<Rightarrow> if v = JNull then Inr p2 else Inr v)
          else Inr p2)"

definition calls_from_content :: "helpers \<Rightarrow> message list \<Rightarrow> string
    \<Rightarrow> py_exception + tool_call list" where
  \<comment> \<open>the \<open>tool_calls\<close> the loop builds from a content without structured calls; a parsed
      value that is a string or a list holding \<open>name\<close> and \<open>parameters\<close> fails at the
      subscript, a number or a boolean at \<open>in\<close>\<close>
  "calls_from_content h messages_history content =
     (case parse_content h messages_history content of
        Inl e \<Rightarrow> Inl e
      | Inr p \<Rightarrow>
          if \<not> truthy p then Inr []
          else (case p of
                  JObj d \<Rightarrow>
                    if map_of d ''name'' \<noteq> None \<and> map_of d ''parameters'' \<noteq> None
                    then (let tool_name_from_content = dict_get d ''name'';
                              tool_args_from_content = dict_get d ''parameters''
                          in case tool_name_from_content of
                               JStr n \<Rightarrow>
                                 if n \<in> set TOOLS_SPEC
                                 then Inr [\<lparr>tc_id = ''call_from_content_'' @ call_hash h tool_args_from_content,
                                            tc_name = n,
                                            tc_arguments = Json_string tool_args_from_content\<rparr>]
                                 else Inr []
                             | _ \<Rightarrow> Inr [])
                    else Inr []
                | JStr s \<Rightarrow>
                    if contains ''name'' s \<and> contains ''parameters'' s then Inl TypeError else Inr []
                | JList xs \<Rightarrow>
                    if JStr ''name'' \<in> set xs \<and> JStr ''parameters'' \<in> set xs then Inl TypeError
                    else Inr []
                | _ \<Rightarrow> Inl TypeError))"

definition plain_helpers :: helpers where
  \<comment> \<open>helpers for runs on text that holds no JSON: nothing parses\<close>
  "plain_helpers = \<lparr>robust_json_parse = (\<lambda>s. Inr JNull), json_loads = (\<lambda>s. Inl JSONDecodeError),
                     call_hash = (\<lambda>j. ''0''), keyword_of_user_text = (\<lambda>j. None)\<rparr>"

definition text_only_request :: string where
  \<comment> \<open>an assistant text that names the extraction tool and gives a \<open>text_content\<close>
      value but no URL\<close>
  "text_only_request = ''I will call extract_blog_fields_from_text with '' @ [dquote] @ ''text_content''
      @ [dquote] @ '': '' @ [dquote] @ ''hello world'' @ [dquote]"

definition extract_request_head :: string where
  \<comment> \<open>the name of the extraction tool and the opening of a \<open>text_content\<close> value\<close>
  "extract_request_head = ''extract_blog_fields_from_text '' @ [dquote] @ ''text_content''
      @ [dquote] @ '': '' @ [dquote]"

definition long_text_request :: string where
  \<comment> \<open>an assistant text that names the extraction tool and gives a \<open>text_content\<close> value
      of 2001 characters, cut off before its closing quote, and no URL\<close>
  "long_text_request = extract_request_head @ replicate 2001 (CHR ''a'')"

definition url_request :: string where
  \<comment> \<open>an assistant text that names the extraction tool and gives both values\<close>
  "url_request = ''extract_blog_fields_from_text '' @ [dquote] @ ''text_content''
      @ [dquote] @ '': '' @ [dquote] @ ''line'' @ [backslash] @ ''nbreak'' @ [dquote] @ '', ''
      @ [dquote] @ ''url'' @ [dquote] @ '': '' @ [dquote] @ ''https://x.y/z'' @ [dquote]"

definition fetched_history :: "message list" where
  \<comment> \<open>a history whose last successful page fetch was of \<open>https://a.b/c\<close>, followed by a
      failed fetch and a tool message that is no JSON\<close>
  "fetched_history =
     [Tool ''call_1'' ''get_webpage_content_and_interact''
        (Dumped (JObj [(''status'', JStr ''success''), (''url'', JStr ''https://old.example/'')])),
      Tool ''call_2'' ''get_webpage_content_and_interact''
        (Dumped (JObj [(''status'', JStr ''success''), (''url'', JStr ''https://a.b/c'')])),
      Tool ''call_3'' ''get_webpage_content_and_interact''
        (Dumped (JObj [(''status'', JStr ''error''), (''url'', JStr ''https://bad.example/'')])),
      Tool ''call_4'' ''get_webpage_content_and_interact'' (Undecodable (JNote ''argument_parse_failed'' []))]"

section \<open>External collaborators\<close>

text \<open>
  The reasoning service, the search provider, the browser and the writer are functions
  of a world state \<open>'w\<close> that they may change. A request to the reasoning service is
  the conversation of an agent turn or one of the fixed prompts with the values the
  source formats into it. \<open>search_links\<close> gives the URLs of its results (its error
  handler returns the empty list for every exception); \<open>save_data\<close> catches its own
  exceptions and returns the path or \<open>None\<close>.
\<close>

datatype chat_request =
    AgentTurn "message list"
  | ExtractionPrompt jval jval nat string
  | QualityPrompt jval jval jval
  | RefinementPrompt jval jval jval
  | FinalAnalysisPrompt nat "(string \<times> jval) list"

record raw_result =
  rr_status :: string
  rr_final_url :: string
  rr_page_title :: string
  rr_action_performed :: jval
  rr_text_content :: "string option"  \<comment> \<open>\<open>data["text_content"]\<close>, when the key is there\<close>
  rr_used_selector :: "string option"
  rr_message :: "string option"
  rr_error_message :: jval

record 'w collaborators =
  chat_with_ollama_for_tools :: "chat_request \<Rightarrow> 'w \<Rightarrow> (string option \<times> tool_call list) \<times> 'w"
  search_links :: "jval \<Rightarrow> 'w \<Rightarrow> string list \<times> 'w"
  init_selenium_driver :: "'w \<Rightarrow> bool \<times> 'w"
  sync_browse_website :: "string \<Rightarrow> jval \<Rightarrow> jval \<Rightarrow> jval \<Rightarrow> 'w \<Rightarrow> raw_result \<times> 'w"
  save_data :: "(string \<times> jval) list list \<Rightarrow> string \<Rightarrow> 'w \<Rightarrow> string option \<times> 'w"

definition browse_website :: "'w collaborators \<Rightarrow> string \<Rightarrow> jval \<Rightarrow> jval \<Rightarrow> jval
    \<Rightarrow> browser_controller \<Rightarrow> 'w \<Rightarrow> raw_result \<times> browser_controller \<times> 'w" where
  \<comment> \<open>\<open>BrowserController.browse_website\<close> with \<open>close_browser=False\<close>: every exception
      becomes an error result, and the use is released in \<open>finally\<close>\<close>
  "browse_website env url action selector input_text b w =
     (let (init_ok, w) = (if driver b then (True, w) else init_selenium_driver env w);
          (exc, b) = ensure_browser init_ok b
      in case exc of
           Some e \<Rightarrow>
             (\<lparr>rr_status = ''error'', rr_final_url = url, rr_page_title = [],
               rr_action_performed = (if truthy action then action else JStr ''get_content''),
               rr_text_content = None, rr_used_selector = None, rr_message = None,
               rr_error_message = JNote ''exception'' []\<rparr>,
              maybe_close_browser False True b, w)
         | None \<Rightarrow>
             (let (res, w) = sync_browse_website env url action selector input_text w
              in (res, maybe_close_browser False True b, w)))"

section \<open>pipelines/agent_pipeline.py: the tool dispatcher\<close>

record 'w exec_state =
  final_structured_blog_data :: "(string \<times> jval) list list"
  browser :: browser_controller
  world :: 'w
  status_log :: "(string \<times> jval) list"
    \<comment> \<open>the status line at the entry of \<open>_execute_tool_call\<close>: tool name and arguments\<close>

definition error_result :: "string \<Rightarrow> jval list \<Rightarrow> jval" where
  "error_result tag args = JObj [(''status'', JStr ''error''), (''message'', JNote tag args)]"

definition execute_search :: "'w collaborators \<Rightarrow> (string \<times> jval) list \<Rightarrow> 'w exec_state
    \<Rightarrow> (py_exception + jval) \<times> 'w exec_state" where
  "execute_search env tool_args st =
     (let keyword = dict_get tool_args ''keyword''
      in if \<not> truthy keyword then (Inr (error_result ''keyword_required'' []), st)
         else (let (search_results, w) = search_links env keyword (world st);
                   urls = filter (\<lambda>u. u \<noteq> []) search_results
               in (Inr (JObj [(''status'', JStr ''success''),
                              (''found_urls'', JList (map JStr urls)),
                              (''summary'', JNote ''found_urls'' [JInt (int (length urls))])]),
                   st\<lparr>world := w\<rparr>)))"

fun keyword_in_calls :: "tool_call list \<Rightarrow> py_exception + jval option" where
  \<comment> \<open>the inner loop of the keyword recovery over one assistant message's tool calls:
      a dictionary is used as it is, anything else goes through \<open>json.loads\<close>, whose
      \<open>JSONDecodeError\<close> (a bad string) and \<open>TypeError\<close> (no string) are passed over;
      \<open>get\<close> on a decoded value that is no dictionary raises\<close>
  "keyword_in_calls [] = Inr None"
| "keyword_in_calls (tc # tcs) =
     (if tc_name tc = ''search_web_for_blogs''
      then (case tc_arguments tc of
              Bad_string \<Rightarrow> keyword_in_calls tcs
            | Object (JObj d) \<Rightarrow>
                if truthy (dict_get d ''keyword'') then Inr (Some (dict_get d ''keyword''))
                else keyword_in_calls tcs
            | Object v \<Rightarrow> keyword_in_calls tcs
            | Json_string (JObj d) \<Rightarrow>
                if truthy (dict_get d ''keyword'') then Inr (Some (dict_get d ''keyword''))
                else keyword_in_calls tcs
            | Json_string v \<Rightarrow> Inl AttributeError)
      else keyword_in_calls tcs)"

fun keyword_in_history :: "message list \<Rightarrow> py_exception + jval option" where
  \<comment> \<open>the outer loop, over the reversed history\<close>
  "keyword_in_history [] = Inr None"
| "keyword_in_history (Assistant c tcs # ms) =
     (case keyword_in_calls tcs of
        Inl e \<Rightarrow> Inl e
      | Inr (Some k) \<Rightarrow> Inr (Some k)
      | Inr None \<Rightarrow> keyword_in_history ms)"
| "keyword_in_history (m # ms) = keyword_in_history ms"

fun keyword_in_user_messages :: "helpers \<Rightarrow> message list \<Rightarrow> jval option" where
  "keyword_in_user_messages h [] = None"
| "keyword_in_user_messages h (User c # ms) =
     (case keyword_of_user_text h c of Some k \<Rightarrow> Some (JStr k) | None \<Rightarrow> keyword_in_user_messages h ms)"
| "keyword_in_user_messages h (m # ms) = keyword_in_user_messages h ms"

definition recover_source_keyword :: "helpers \<Rightarrow> jval \<Rightarrow> message list \<Rightarrow> py_exception + jval" where
  "recover_source_keyword h source_keyword messages_history =
     (if source_keyword = JStr ''unknown_keyword'' \<and> messages_history \<noteq> []
      then (case keyword_in_history (rev messages_history) of
              Inl e \<Rightarrow> Inl e
            | Inr (Some k) \<Rightarrow> Inr k
            | Inr None \<Rightarrow>
                (case keyword_in_user_messages h (take 3 messages_history) of
                   Some k \<Rightarrow> Inr k
                 | None \<Rightarrow> Inr source_keyword))
      else Inr source_keyword)"

definition parse_extraction :: "helpers \<Rightarrow> string \<Rightarrow> py_exception + jval" where
  \<comment> \<open>the parse of the reasoning service's extraction output: \<open>JSONDecodeError\<close> is
      raised when both attempts return \<open>None\<close>\<close>
  "parse_extraction h extracted_json_string =
     (let json_str_to_parse = (case markdown_match extracted_json_string of
                                 Some j \<Rightarrow> j | None \<Rightarrow> extracted_json_string)
      in case robust_json_parse h json_str_to_parse of
           Inl e \<Rightarrow> Inl e
         | Inr v \<Rightarrow>
             if v = JNull
             then (case robust_json_parse h extracted_json_string of
                     Inl e \<Rightarrow> Inl e
                   | Inr v' \<Rightarrow> if v' = JNull then Inl JSONDecodeError else Inr v')
             else Inr v)"

definition raw_llm_output :: "string \<Rightarrow> jval" where
  \<comment> \<open>\<open>extracted_json_string[:500] + ("..." if len(extracted_json_string) > 500 else "")\<close>\<close>
  "raw_llm_output s = JStr (take 500 s @ (if length s > 500 then ''...'' else []))"

definition extraction_success :: "(string \<times> jval) list \<Rightarrow> jval \<Rightarrow> jval" where
  \<comment> \<open>the result of a successful extraction\<close>
  "extraction_success structured original_url =
     JObj [(''status'', JStr ''success''),
           (''message'', JNote ''extracted'' [original_url]),
           (''extracted_blog_name'', dict_get_default structured ''blog_name'' (JStr ''Unknown'')),
           (''extraction_summary'', JObj
              [(''blog_name'', dict_get_default structured ''blog_name'' (JStr ''Unknown'')),
               (''blog_id'', dict_get_default structured ''blog_id'' (JStr ''Unknown'')),
               (''recent_post_date'', dict_get_default structured ''recent_post_date'' (JStr ''Not Found'')),
               (''total_posts'', dict_get_default structured ''total_posts'' (JStr ''Not Found'')),
               (''source_keyword'',
                dict_get_default structured ''source_keyword'' (JStr ''unknown_keyword''))])]"

definition extract_with_llm :: "helpers \<Rightarrow> 'w collaborators \<Rightarrow> jval \<Rightarrow> jval \<Rightarrow> nat \<Rightarrow> string
    \<Rightarrow> 'w exec_state \<Rightarrow> (py_exception + jval) \<times> 'w exec_state" where
  \<comment> \<open>the extraction branch from the call of the reasoning service on. The call and the
      \<open>len\<close> of its content stand before the \<open>try\<close>: a content that is \<open>None\<close> raises
      \<open>TypeError\<close>. Inside the \<open>try\<close>, \<open>JSONDecodeError\<close> and every other exception
      become error results\<close>
  "extract_with_llm h env original_url source_keyword text_length text st =
     (let ((llm_content, llm_calls), w) =
            chat_with_ollama_for_tools env
              (ExtractionPrompt original_url source_keyword text_length text) (world st);
          st = st\<lparr>world := w\<rparr>
      in case llm_content of
           None \<Rightarrow> (Inl TypeError, st)
         | Some extracted_json_string \<Rightarrow>
             (case parse_extraction h extracted_json_string of
                Inl e \<Rightarrow>
                  (Inr (JObj [(''status'', JStr ''error''),
                              (''message'', JNote (if e = JSONDecodeError then ''parse_failed''
                                                   else ''structuring_failed'') [original_url]),
                              (''raw_llm_output'', raw_llm_output extracted_json_string)]), st)
              | Inr extracted_info_dict \<Rightarrow>
                  (let structured = structure_blog_info extracted_info_dict original_url;
                       structured =
                         (if map_of structured ''source_keyword'' = None
                             \<or> \<not> truthy (dict_get structured ''source_keyword'')
                          then dict_set structured ''source_keyword'' source_keyword
                          else structured);
                       st = st\<lparr>final_structured_blog_data :=
                                 final_structured_blog_data st @ [structured]\<rparr>
                   in (Inr (extraction_success structured original_url), st))))"

definition execute_extract :: "helpers \<Rightarrow> 'w collaborators \<Rightarrow> (string \<times> jval) list \<Rightarrow> message list
    \<Rightarrow> 'w exec_state \<Rightarrow> (py_exception + jval) \<times> 'w exec_state" where
  \<comment> \<open>the branch for \<open>extract_blog_fields_from_text\<close>; \<open>strip\<close> on a text that is no
      \<open>str\<close> raises\<close>
  "execute_extract h env tool_args messages_history st =
     (let text_content = dict_get tool_args ''text_content'';
          original_url = (if truthy (dict_get tool_args ''original_url'')
                          then dict_get tool_args ''original_url'' else dict_get tool_args ''url'');
          source_keyword = dict_get_default tool_args ''source_keyword'' (JStr ''unknown_keyword'')
      in case recover_source_keyword h source_keyword messages_history of
           Inl e \<Rightarrow> (Inl e, st)
         | Inr source_keyword \<Rightarrow>
             if \<not> truthy text_content then (Inr (error_result ''text_content_required'' []), st)
             else if \<not> truthy original_url then (Inr (error_result ''original_url_required'' []), st)
             else (case text_content of
                     JStr text \<Rightarrow>
                       (let text_content_stripped = strip text;
                            text_length = length text_content_stripped
                        in if text_length = 0
                           then (Inr (JObj [(''status'', JStr ''error''),
                                            (''message'', JNote ''empty_text'' [original_url]),
                                            (''suggestion'', JNote ''browse_again'' [])]), st)
                           else if text_length < 50
                           then (Inr (JObj [(''status'', JStr ''error''),
                                            (''message'', JNote ''text_too_short''
                                               [original_url, JInt (int text_length)]),
                                            (''text_preview'', JStr (take 100 text_content_stripped)),
                                            (''suggestion'', JNote ''other_selectors'' [])]), st)
                           else extract_with_llm h env original_url source_keyword text_length text st)
                   | _ \<Rightarrow> (Inl AttributeError, st)))"

definition quality_status :: "nat \<Rightarrow> string" where
  "quality_status text_length =
     (if text_length \<ge> 300 then ''good'' else if text_length \<ge> 100 then ''short''
      else if text_length > 0 then ''very_short'' else ''empty'')"

definition content_quality_warning :: "nat \<Rightarrow> jval" where
  "content_quality_warning text_length =
     (if text_length = 0 then JNote ''empty_content'' []
      else if text_length < 100 then JNote ''very_short_content'' [JInt (int text_length)]
      else if text_length < 300 then JNote ''short_content'' [JInt (int text_length)]
      else JStr [])"

definition fetched_text_length :: "string option \<Rightarrow> nat" where
  \<comment> \<open>\<open>len(text_content.strip()) if text_content else 0\<close>, for the
      \<open>data.get("text_content", "")\<close> of the browser's result\<close>
  "fetched_text_length t = (case t of None \<Rightarrow> 0 | Some text \<Rightarrow> length (strip text))"

definition log_tool_call :: "string \<Rightarrow> jval \<Rightarrow> 'w exec_state \<Rightarrow> 'w exec_state" where
  "log_tool_call tool_name tool_args st = st\<lparr>status_log := status_log st @ [(tool_name, tool_args)]\<rparr>"

definition force_extract :: "helpers \<Rightarrow> 'w collaborators \<Rightarrow> string \<Rightarrow> string \<Rightarrow> message list
    \<Rightarrow> 'w exec_state \<Rightarrow> 'w exec_state" where
  \<comment> \<open>the \<open>try\<close> block of the fetch branch: the nested \<open>_execute_tool_call\<close> for the
      extraction tool. Its result is only reported in status lines, and \<open>except Exception\<close>
      swallows what it raises; the effects it had stay\<close>
  "force_extract h env url text messages_history st =
     (let tool_args = [(''text_content'', JStr (take 5000 text)), (''original_url'', JStr url)];
          st = log_tool_call ''extract_blog_fields_from_text'' (JObj tool_args) st
      in snd (execute_extract h env tool_args messages_history st))"

definition fetch_success_result :: "string \<Rightarrow> jval \<Rightarrow> raw_result \<Rightarrow> jval" where
  \<comment> \<open>the \<open>result\<close> dictionary of a successful fetch\<close>
  "fetch_success_result url fields_to_extract raw =
     (let text_length = fetched_text_length (rr_text_content raw)
      in JObj ([(''status'', JStr ''success''),
                (''url'', JStr url),
                (''final_url'', JStr (rr_final_url raw)),
                (''page_title'', JStr (rr_page_title raw)),
                (''action_performed'', rr_action_performed raw),
                (''requested_fields'', fields_to_extract),
                (''content_quality'', JObj
                   [(''text_length'', JInt (int text_length)),
                    (''quality_status'', JStr (quality_status text_length)),
                    (''warning'', content_quality_warning text_length),
                    (''used_selector'', JStr (case rr_used_selector raw of
                                               Some s \<Rightarrow> s | None \<Rightarrow> ''unknown''))])]
               @ (case rr_text_content raw of
                    Some text \<Rightarrow>
                      [(''text_content'', JStr text)]
                      @ (if text_length < 100
                         then [(''content_extraction_note'', JNote ''content_very_short''
                                  [JInt (int text_length), JStr (rr_page_title raw)])]
                              @ (if contains ''blog.naver.com'' url
                                 then [(''naver_blog_note'', JNote ''naver_blog'' [])] else [])
                         else [])
                  | None \<Rightarrow>
                      (case rr_message raw of
                         Some m \<Rightarrow> [(''message'', JStr m)]
                       | None \<Rightarrow> []))))"

definition fetch_action :: "jval \<Rightarrow> py_exception + jval \<times> jval \<times> jval" where
  \<comment> \<open>\<open>action_type\<close>, \<open>selector\<close> and \<open>input_text\<close>: read from \<open>action_details\<close>
      when that is true, which needs a dictionary\<close>
  "fetch_action action_details =
     (if truthy action_details
      then (case action_details of
              JObj a \<Rightarrow> Inr (dict_get a ''action_type'', dict_get a ''selector'', dict_get a ''input_text'')
            | _ \<Rightarrow> Inl AttributeError)
      else Inr (JNull, JNull, JNull))"

definition execute_fetch :: "helpers \<Rightarrow> 'w collaborators \<Rightarrow> (string \<times> jval) list \<Rightarrow> message list
    \<Rightarrow> 'w exec_state \<Rightarrow> (py_exception + jval) \<times> 'w exec_state" where
  \<comment> \<open>the branch for \<open>get_webpage_content_and_interact\<close>\<close>
  "execute_fetch h env tool_args messages_history st =
     (let url = dict_get tool_args ''url'';
          fields_to_extract = dict_get_default tool_args ''fields_to_extract''
                                (JList (map JStr DATA_FIELDS_TO_EXTRACT));
          action_details = dict_get tool_args ''action_details''
      in if \<not> truthy url then (Inr (error_result ''url_required'' []), st)
         else (case url of
                 JStr u \<Rightarrow>
                   if \<not> (prefix ''http://'' u \<or> prefix ''https://'' u)
                   then (Inr (JObj [(''status'', JStr ''error''), (''url'', url),
                                    (''message'', JNote ''invalid_url'' [url])]), st)
                   else (case fetch_action action_details of
                           Inl e \<Rightarrow> (Inl e, st)
                         | Inr (action_type, selector, input_text) \<Rightarrow>
                             (let (raw, b, w) = browse_website env u action_type selector input_text
                                                  (browser st) (world st);
                                  st = st\<lparr>browser := b, world := w\<rparr>
                              in if rr_status raw = ''success''
                                 then (let text_length = fetched_text_length (rr_text_content raw);
                                           st = (if text_length \<ge> 300
                                                 then force_extract h env u (the (rr_text_content raw))
                                                        messages_history st
                                                 else st)
                                       in (Inr (fetch_success_result u fields_to_extract raw), st))
                                 else (Inr (JObj [(''status'', JStr ''error''), (''url'', url),
                                                  (''message'', JNote ''access_failed''
                                                     [rr_error_message raw])]), st)))
               | _ \<Rightarrow> (Inl AttributeError, st)))"

definition execute_finalize :: "helpers \<Rightarrow> 'w collaborators \<Rightarrow> (string \<times> jval) list
    \<Rightarrow> 'w exec_state \<Rightarrow> (py_exception + jval) \<times> 'w exec_state" where
  \<comment> \<open>the branch for \<open>finalize_blog_data_collection\<close>; \<open>json.loads(None)\<close> raises
      \<open>TypeError\<close>, \<open>get\<close> on a decoded value that is no object \<open>AttributeError\<close>\<close>
  "execute_finalize h env tool_args st =
     (let all_done = dict_get_default tool_args ''all_tasks_completed'' (JBool False);
          quality_score = dict_get_default tool_args ''quality_score'' (JInt 0);
          recommendations = dict_get_default tool_args ''recommendations'' (JList []);
          n = length (final_structured_blog_data st);
          finish = (\<lambda>computed_quality_score analysis_data st.
             (Inr (JObj [(''status'', JStr ''success''),
                         (''final_blog_count'', JInt (int n)),
                         (''all_done_by_llm'', all_done),
                         (''quality_score'', computed_quality_score),
                         (''quality_analysis'', analysis_data),
                         (''recommendations'', recommendations),
                         (''message'', if n \<noteq> 0 then JNote ''all_saved'' [computed_quality_score]
                                       else JNote ''nothing_collected'' [])]), st))
      in case final_structured_blog_data st of
           [] \<Rightarrow> finish (JInt 0) (JObj [(''message'', JNote ''nothing_collected'' [])]) st
         | first # rest \<Rightarrow>
             (let ((reply, calls), w) = chat_with_ollama_for_tools env (FinalAnalysisPrompt n first) (world st);
                  st = st\<lparr>world := w\<rparr>
              in case reply of
                   None \<Rightarrow> (Inl TypeError, st)
                 | Some analysis_result \<Rightarrow>
                     (case json_loads h analysis_result of
                        Inl e \<Rightarrow>
                          if e = JSONDecodeError
                          then finish quality_score (JObj [(''raw_analysis'', JStr analysis_result)]) st
                          else (Inl e, st)
                      | Inr (JObj d) \<Rightarrow>
                          finish (dict_get_default d ''overall_success_rate'' quality_score) (JObj d) st
                      | Inr v \<Rightarrow> (Inl AttributeError, st))))"

definition execute_analyze :: "helpers \<Rightarrow> 'w collaborators \<Rightarrow> (string \<times> jval) list
    \<Rightarrow> 'w exec_state \<Rightarrow> (py_exception + jval) \<times> 'w exec_state" where
  \<comment> \<open>the branch for \<open>analyze_blog_quality\<close> (exceptions of the prompt's formatting, for
      arguments of other types than the schema's, are left out)\<close>
  "execute_analyze h env tool_args st =
     (let blog_url = dict_get tool_args ''blog_url'';
          content_sample = dict_get_default tool_args ''content_sample'' (JStr []);
          evaluation_criteria = dict_get_default tool_args ''evaluation_criteria''
             (JList [JStr ''authority'', JStr ''freshness'', JStr ''depth'', JStr ''relevance''])
      in if \<not> truthy blog_url then (Inr (error_result ''blog_url_required'' []), st)
         else (let ((reply, calls), w) = chat_with_ollama_for_tools env
                       (QualityPrompt blog_url content_sample evaluation_criteria) (world st);
                   st = st\<lparr>world := w\<rparr>
               in case reply of
                    None \<Rightarrow> (Inl TypeError, st)
                  | Some quality_result \<Rightarrow>
                      (case json_loads h quality_result of
                         Inl e \<Rightarrow>
                           if e = JSONDecodeError
                           then (Inr (JObj [(''status'', JStr ''success''), (''blog_url'', blog_url),
                                            (''quality_analysis'',
                                             JObj [(''raw_analysis'', JStr quality_result)]),
                                            (''recommendation'', JStr ''extract'')]), st)
                           else (Inl e, st)
                       | Inr (JObj d) \<Rightarrow>
                           (Inr (JObj [(''status'', JStr ''success''), (''blog_url'', blog_url),
                                       (''quality_analysis'', JObj d),
                                       (''recommendation'',
                                        dict_get_default d ''recommendation'' (JStr ''extract''))]), st)
                       | Inr v \<Rightarrow> (Inl AttributeError, st))))"

definition execute_refine :: "helpers \<Rightarrow> 'w collaborators \<Rightarrow> (string \<times> jval) list
    \<Rightarrow> 'w exec_state \<Rightarrow> (py_exception + jval) \<times> 'w exec_state" where
  \<comment> \<open>the branch for \<open>smart_search_refinement\<close> (with the same omission)\<close>
  "execute_refine h env tool_args st =
     (let original_keyword = dict_get tool_args ''original_keyword'';
          search_results_quality = dict_get tool_args ''search_results_quality'';
          target_blog_types = dict_get_default tool_args ''target_blog_types'' (JList [])
      in if \<not> truthy original_keyword \<or> \<not> truthy search_results_quality
         then (Inr (error_result ''refinement_arguments_required'' []), st)
         else (let ((reply, calls), w) = chat_with_ollama_for_tools env
                       (RefinementPrompt original_keyword search_results_quality target_blog_types)
                       (world st);
                   st = st\<lparr>world := w\<rparr>
               in case reply of
                    None \<Rightarrow> (Inl TypeError, st)
                  | Some refinement_result \<Rightarrow>
                      (case json_loads h refinement_result of
                         Inl e \<Rightarrow>
                           if e = JSONDecodeError
                           then (Inr (JObj [(''status'', JStr ''success''),
                                            (''original_keyword'', original_keyword),
                                            (''search_refinements'',
                                             JObj [(''raw_suggestions'', JStr refinement_result)])]), st)
                           else (Inl e, st)
                       | Inr v \<Rightarrow>
                           (Inr (JObj [(''status'', JStr ''success''),
                                       (''original_keyword'', original_keyword),
                                       (''search_refinements'', v)]), st))))"

definition with_dict :: "jval \<Rightarrow> 'w exec_state
    \<Rightarrow> ((string \<times> jval) list \<Rightarrow> (py_exception + jval) \<times> 'w exec_state)
    \<Rightarrow> (py_exception + jval) \<times> 'w exec_state" where
  \<comment> \<open>\<open>tool_args.get\<close> needs a dictionary: anything else raises \<open>AttributeError\<close>\<close>
  "with_dict tool_args st f = (case tool_args of JObj d \<Rightarrow> f d | _ \<Rightarrow> (Inl AttributeError, st))"

definition execute_tool_call :: "helpers \<Rightarrow> 'w collaborators \<Rightarrow> string \<Rightarrow> jval \<Rightarrow> message list
    \<Rightarrow> 'w exec_state \<Rightarrow> (py_exception + jval) \<times> 'w exec_state" where
  \<comment> \<open>\<open>AgentPipeline._execute_tool_call\<close>: the JSON value it returns (the caller's
      \<open>json.loads\<close> of the returned string gives it back) or the exception it raises\<close>
  "execute_tool_call h env tool_name tool_args messages_history st =
     (let st = log_tool_call tool_name tool_args st
      in if tool_name = ''search_web_for_blogs''
         then with_dict tool_args st (\<lambda>d. execute_search env d st)
         else if tool_name = ''get_webpage_content_and_interact''
         then with_dict tool_args st (\<lambda>d. execute_fetch h env d messages_history st)
         else if tool_name = ''extract_blog_fields_from_text''
         then with_dict tool_args st (\<lambda>d. execute_extract h env d messages_history st)
         else if tool_name = ''analyze_blog_quality''
         then with_dict tool_args st (\<lambda>d. execute_analyze h env d st)
         else if tool_name = ''smart_search_refinement''
         then with_dict tool_args st (\<lambda>d. execute_refine h env d st)
         else if tool_name = ''finalize_blog_data_collection''
         then with_dict tool_args st (\<lambda>d. execute_finalize h env d st)
         else (Inr (error_result ''unknown_tool'' [JStr tool_name]), st))"

section \<open>Concrete collaborators\<close>

definition scripted :: "(chat_request \<Rightarrow> string option \<times> tool_call list) \<Rightarrow> string list
    \<Rightarrow> string option \<Rightarrow> unit collaborators" where
  \<comment> \<open>collaborators without state: a reasoning service that answers by \<open>reply\<close>, a
      search that finds \<open>urls\<close>, a browser that starts and loads every page with the
      text \<open>page\<close>, a writer that writes\<close>
  "scripted reply urls page =
     \<lparr>chat_with_ollama_for_tools = (\<lambda>rq w. (reply rq, w)),
      search_links = (\<lambda>k w. (urls, w)),
      init_selenium_driver = (\<lambda>w. (True, w)),
      sync_browse_website = (\<lambda>u a s i w.
         (\<lparr>rr_status = ''success'', rr_final_url = u, rr_page_title = ''title'',
           rr_action_performed = JStr ''get_content'', rr_text_content = page,
           rr_used_selector = None, rr_message = None, rr_error_message = JStr []\<rparr>, w)),
      save_data = (\<lambda>d prefix w. (if d = [] then None else Some (prefix @ ''.csv''), w))\<rparr>"

definition initial_state :: "unit exec_state" where
  \<comment> \<open>the dispatcher's state after the browser was acquired once\<close>
  "initial_state = \<lparr>final_structured_blog_data = [],
                     browser = \<lparr>driver = True, browser_instance_user_count = 1\<rparr>,
                     world = (), status_log = []\<rparr>"

definition quality_of :: "py_exception + jval \<Rightarrow> jval" where
  \<comment> \<open>\<open>result["content_quality"]["quality_status"]\<close> of a tool result\<close>
  "quality_of r = (case r of
                     Inr (JObj d) \<Rightarrow> (case dict_get d ''content_quality'' of
                                        JObj q \<Rightarrow> dict_get q ''quality_status''
                                      | _ \<Rightarrow> JNull)
                   | _ \<Rightarrow> JNull)"

definition status_of :: "py_exception + jval \<Rightarrow> jval" where
  \<comment> \<open>\<open>result["status"]\<close> of a tool result\<close>
  "status_of r = (case r of Inr (JObj d) \<Rightarrow> dict_get d ''status'' | _ \<Rightarrow> JNull)"

definition long_page :: string where
  \<comment> \<open>a page text of 300 characters\<close>
  "long_page = replicate 300 (CHR ''a'')"


definition silent :: "chat_request \<Rightarrow> string option \<times> tool_call list" where
  \<comment> \<open>a reasoning service that returns an empty message: no content, no tool calls\<close>
  "silent rq = (None, [])"

section \<open>pipelines/agent_pipeline.py: the orchestration loop\<close>

text \<open>
  The state of \<open>run_agent_for_keywords\<close>. Three fields record what the run does to
  its collaborators: \<open>release_log\<close> has the \<open>force_close\<close> argument of every
  \<open>_maybe_close_browser\<close> call the function itself makes, \<open>saved\<close> the data and the file
  name prefix of every \<open>save_data\<close> call, \<open>turn_count\<close> the number of turns begun.
\<close>

record 'w run_state =
  messages_history :: "message list"
  exec :: "'w exec_state"
  release_log :: "bool list"
  saved :: "((string \<times> jval) list list \<times> string) list"
  turn_count :: nat

datatype dispatch_exit = Continue | Return "string option" | Raise py_exception

datatype loop_exit = Finalized "string option" | NoToolCalls | TurnCap | Raised py_exception

definition release_browser :: "'w run_state \<Rightarrow> 'w run_state" where
  \<comment> \<open>\<open>await self.browser_controller._maybe_close_browser(force_close=True)\<close>; the driver's
      \<open>quit\<close> is called with its exceptions caught\<close>
  "release_browser rs =
     rs\<lparr>exec := (exec rs)\<lparr>browser := maybe_close_browser True True (browser (exec rs))\<rparr>,
        release_log := release_log rs @ [True]\<rparr>"

definition write_data :: "'w collaborators \<Rightarrow> string \<Rightarrow> 'w run_state \<Rightarrow> string option \<times> 'w run_state" where
  \<comment> \<open>\<open>self.data_writer.save_data(final_structured_blog_data, prefix)\<close>\<close>
  "write_data env file_prefix rs =
     (let data = final_structured_blog_data (exec rs);
          (path, w) = save_data env data file_prefix (world (exec rs))
      in (path, rs\<lparr>exec := (exec rs)\<lparr>world := w\<rparr>, saved := saved rs @ [(data, file_prefix)]\<rparr>))"

definition decode_arguments :: "arguments \<Rightarrow> jval option" where
  \<comment> \<open>\<open>json.loads\<close> of the argument string (an object is dumped first); \<open>None\<close> for
      \<open>JSONDecodeError\<close>\<close>
  "decode_arguments a = (case a of Json_string j \<Rightarrow> Some j | Bad_string \<Rightarrow> None | Object j \<Rightarrow> Some j)"

definition append_message :: "message \<Rightarrow> 'w run_state \<Rightarrow> 'w run_state" where
  "append_message m rs = rs\<lparr>messages_history := messages_history rs @ [m]\<rparr>"

fun dispatch_tool_calls :: "helpers \<Rightarrow> 'w collaborators \<Rightarrow> tool_call list \<Rightarrow> 'w run_state
    \<Rightarrow> dispatch_exit \<times> 'w run_state" where
  \<comment> \<open>\<open>for tool_call in tool_calls\<close>\<close>
  "dispatch_tool_calls h env [] rs = (Continue, rs)"
| "dispatch_tool_calls h env (tool_call # tool_calls) rs =
     (let tool_id = tc_id tool_call; tool_name = tc_name tool_call
      in case decode_arguments (tc_arguments tool_call) of
           None \<Rightarrow>
             dispatch_tool_calls h env tool_calls
               (append_message (Tool tool_id tool_name
                                  (Undecodable (JNote ''argument_parse_failed'' [JStr tool_name]))) rs)
         | Some tool_args \<Rightarrow>
             (let (r, st) = execute_tool_call h env tool_name tool_args (messages_history rs) (exec rs);
                  rs = rs\<lparr>exec := st\<rparr>
              in case r of
                   Inl e \<Rightarrow> (Raise e, rs)
                 | Inr tool_result \<Rightarrow>
                     (let rs = append_message (Tool tool_id tool_name (Dumped tool_result)) rs
                      in if tool_name = ''finalize_blog_data_collection''
                            \<and> status_of (Inr tool_result) = JStr ''success''
                         then (if final_structured_blog_data (exec rs) \<noteq> []
                               then (let (output_filepath, rs) = write_data env ''agent_blog_data'' rs
                                     in (Return output_filepath, release_browser rs))
                               else (Return None, release_browser rs))
                         else dispatch_tool_calls h env tool_calls rs)))"

fun run_turns :: "helpers \<Rightarrow> 'w collaborators \<Rightarrow> nat \<Rightarrow> 'w run_state \<Rightarrow> loop_exit \<times> 'w run_state" where
  \<comment> \<open>\<open>for turn_count in range(max_turns)\<close>, by the number of turns left\<close>
  "run_turns h env 0 rs = (TurnCap, rs)"
| "run_turns h env (Suc turns_left) rs =
     (let rs = rs\<lparr>turn_count := turn_count rs + 1\<rparr>;
          ((content, llm_tool_calls), w) =
             chat_with_ollama_for_tools env (AgentTurn (messages_history rs)) (world (exec rs));
          rs = rs\<lparr>exec := (exec rs)\<lparr>world := w\<rparr>\<rparr>;
          rs = append_message (Assistant content llm_tool_calls) rs
      in case (if llm_tool_calls = [] \<and> content \<noteq> None \<and> content \<noteq> Some []
               then calls_from_content h (messages_history rs) (the content)
               else Inr llm_tool_calls) of
           Inl e \<Rightarrow> (Raised e, rs)
         | Inr [] \<Rightarrow> (NoToolCalls, rs)
         | Inr tool_calls \<Rightarrow>
             (case dispatch_tool_calls h env tool_calls rs of
                (Continue, rs) \<Rightarrow> run_turns h env turns_left rs
              | (Return output, rs) \<Rightarrow> (Finalized output, rs)
              | (Raise e, rs) \<Rightarrow> (Raised e, rs)))"

fun iterate_found :: "jval \<Rightarrow> jval list" where
  \<comment> \<open>the items \<open>set.update\<close> is given by a true \<open>found_urls\<close> before it returns or
      raises: the items of a list up to the first that cannot be hashed, the characters
      of a string (those of a formatted text are kept symbolic, as one item), the keys of
      a dictionary. A number is not iterable; the \<open>TypeError\<close> is caught\<close>
  "iterate_found (JList us) =
     takeWhile (\<lambda>u. case u of JList x \<Rightarrow> False | JObj x \<Rightarrow> False | _ \<Rightarrow> True) us"
| "iterate_found (JStr s) = map (\<lambda>c. JStr [c]) s"
| "iterate_found (JObj d) = map (\<lambda>kv. JStr (fst kv)) d"
| "iterate_found (JNote t a) = [JNote ''characters'' [JNote t a]]"
| "iterate_found v = []"

fun py_key :: "jval \<Rightarrow> jval" where
  \<comment> \<open>equality of hashable items: \<open>True == 1\<close> and \<open>False == 0\<close>\<close>
  "py_key (JBool b) = JInt (if b then 1 else 0)"
| "py_key v = v"

fun set_update :: "jval list \<Rightarrow> jval list \<Rightarrow> jval list" where
  \<comment> \<open>\<open>s.update(items)\<close> on a set kept as a list without repetitions, in the order of
      insertion; the order in which Python visits a set is not fixed\<close>
  "set_update s [] = s"
| "set_update s (u # us) = set_update (if py_key u \<in> py_key ` set s then s else s @ [u]) us"

fun urls_found :: "message list \<Rightarrow> jval list \<Rightarrow> py_exception + jval list" where
  \<comment> \<open>the loop that fills \<open>urls_found_in_history\<close>. A content that is no JSON is passed
      over (\<open>JSONDecodeError\<close> is caught); \<open>get\<close> on a decoded content that is no
      dictionary raises \<open>AttributeError\<close>, which is not caught\<close>
  "urls_found [] s = Inr s"
| "urls_found (Tool i n c # ms) s =
     (if n = ''search_web_for_blogs''
      then (case c of
              Undecodable t \<Rightarrow> urls_found ms s
            | Dumped (JObj d) \<Rightarrow>
                if dict_get d ''status'' = JStr ''success'' \<and> truthy (dict_get d ''found_urls'')
                then urls_found ms (set_update s (iterate_found (dict_get d ''found_urls'')))
                else urls_found ms s
            | Dumped v \<Rightarrow> Inl AttributeError)
      else urls_found ms s)"
| "urls_found (m # ms) s = urls_found ms s"

definition placeholder :: "jval \<Rightarrow> (string \<times> jval) list" where
  \<comment> \<open>the record stored for a URL that was found and not extracted\<close>
  "placeholder url_item =
     [(''blog_name'', JNote ''extraction_failed_url_only'' []),
      (''url'', url_item),
      (''blog_id'', JStr ''extraction-failed-url-only''),
      (''post_title'', JStr ''N/A''),
      (''recent_post_date'', JStr ''N/A''),
      (''total_posts'', JStr ''N/A'')]"

definition after_loop :: "'w collaborators \<Rightarrow> 'w run_state \<Rightarrow> (py_exception + string option) \<times> 'w run_state" where
  \<comment> \<open>the statements after \<open>finally\<close>: partial data is saved; with no data, the URLs of
      the successful searches in the history are saved as placeholders\<close>
  "after_loop env rs =
     (if final_structured_blog_data (exec rs) \<noteq> []
      then (let (output_filepath, rs) = write_data env ''agent_blog_data_partial'' rs
            in (Inr output_filepath, rs))
      else (case urls_found (messages_history rs) [] of
              Inl e \<Rightarrow> (Inl e, rs)
            | Inr urls_found_in_history \<Rightarrow>
                if urls_found_in_history \<noteq> []
                then (let rs = rs\<lparr>exec := (exec rs)\<lparr>final_structured_blog_data :=
                                          map placeholder urls_found_in_history\<rparr>\<rparr>;
                          (output_filepath, rs) = write_data env ''agent_blog_data_urls_only'' rs
                      in (Inr output_filepath, rs))
                else (Inr None, rs)))"

definition initial_history :: "string list \<Rightarrow> message list" where
  \<comment> \<open>the system prompt and the user query, as texts formatted from the fields and the
      keywords\<close>
  "initial_history initial_keywords =
     [System (JNote ''system_prompt'' [JList (map JStr DATA_FIELDS_TO_EXTRACT)]),
      User (JNote ''user_query'' [JList (map JStr initial_keywords),
                                  JList (map JStr DATA_FIELDS_TO_EXTRACT)])]"

definition acquire_browser :: "'w collaborators \<Rightarrow> browser_controller \<Rightarrow> 'w
    \<Rightarrow> py_exception option \<times> browser_controller \<times> 'w" where
  \<comment> \<open>\<open>await self.browser_controller._ensure_browser()\<close>: the driver is started when
      there is none\<close>
  "acquire_browser env b w =
     (let (init_ok, w) = (if driver b then (True, w) else init_selenium_driver env w);
          (exc, b) = ensure_browser init_ok b
      in (exc, b, w))"

definition run_agent_for_keywords :: "helpers \<Rightarrow> 'w collaborators \<Rightarrow> string list \<Rightarrow> nat
    \<Rightarrow> browser_controller \<Rightarrow> 'w \<Rightarrow> (py_exception + string option) \<times> loop_exit \<times> 'w run_state" where
  \<comment> \<open>\<open>AgentPipeline.run_agent_for_keywords\<close>: what it returns or raises, how the loop
      was left, and the final state. When the browser does not start, the installation
      attempt fails (the module never imports \<open>subprocess\<close>) and \<open>RuntimeError\<close> is
      raised and handled by returning \<open>None\<close>. \<open>finally\<close> releases the browser on every
      path, after the \<open>return\<close> of the finalize branch too\<close>
  "run_agent_for_keywords h env initial_keywords max_turns b w =
     (let (exc, b, w) = acquire_browser env b w;
          rs = \<lparr>messages_history = initial_history initial_keywords,
                exec = \<lparr>final_structured_blog_data = [], browser = b, world = w, status_log = []\<rparr>,
                release_log = [], saved = [], turn_count = 0\<rparr>
      in case exc of
           Some e \<Rightarrow> (Inr None, Raised RuntimeError, release_browser rs)
         | None \<Rightarrow>
             (case run_turns h env max_turns rs of
                (Finalized output, rs) \<Rightarrow> (Inr output, Finalized output, release_browser rs)
              | (Raised e, rs) \<Rightarrow>
                  if e = RuntimeError then (Inr None, Raised e, release_browser rs)
                  else (let (r, rs') = after_loop env (release_browser rs) in (r, Raised e, rs'))
              | (ex, rs) \<Rightarrow>
                  (let (r, rs') = after_loop env (release_browser rs) in (r, ex, rs'))))"

section \<open>Concrete reasoning services and histories\<close>

definition chatter :: "chat_request \<Rightarrow> string option \<times> tool_call list" where
  \<comment> \<open>a service that answers every request with the same plain text and no tool call\<close>
  "chatter rq = (Some ''I am still thinking about it.'', [])"

definition one_call :: "string \<Rightarrow> jval \<Rightarrow> tool_call" where
  "one_call n args = \<lparr>tc_id = ''call_1'', tc_name = n, tc_arguments = Json_string args\<rparr>"

definition extract_caller :: "chat_request \<Rightarrow> string option \<times> tool_call list" where
  \<comment> \<open>a service that asks for the extraction of a text of 60 characters on every turn
      of the agent, and answers every other request (the extraction prompt too) with
      an empty reply\<close>
  "extract_caller rq =
     (case rq of
        AgentTurn ms \<Rightarrow>
          (None, [one_call ''extract_blog_fields_from_text''
                    (JObj [(''text_content'', JStr (replicate 60 (CHR ''a''))),
                           (''original_url'', JStr ''https://a.b/c''),
                           (''source_keyword'', JStr ''k'')])])
      | _ \<Rightarrow> (None, []))"

definition finalizer :: "chat_request \<Rightarrow> string option \<times> tool_call list" where
  \<comment> \<open>a service that asks to finalize at once\<close>
  "finalizer rq = (None, [one_call ''finalize_blog_data_collection'' (JObj [])])"

definition searcher :: "chat_request \<Rightarrow> string option \<times> tool_call list" where
  \<comment> \<open>a service that asks for a search on every turn\<close>
  "searcher rq = (None, [one_call ''search_web_for_blogs'' (JObj [(''keyword'', JStr ''k'')])])"

definition searched_state :: "unit run_state" where
  \<comment> \<open>a state after the loop with nothing collected, whose history has a successful
      search with three URLs, two of them equal, a search without a keyword, and a tool
      message for undecodable arguments\<close>
  "searched_state =
     \<lparr>messages_history =
        [Tool ''call_1'' ''search_web_for_blogs''
           (Dumped (JObj [(''status'', JStr ''success''),
                          (''found_urls'', JList [JStr ''https://a.b/1'', JStr ''https://a.b/2'',
                                                  JStr ''https://a.b/1'']),
                          (''summary'', JNote ''found_urls'' [JInt 3])])),
         Tool ''call_2'' ''search_web_for_blogs'' (Dumped (error_result ''keyword_required'' [])),
         Tool ''call_3'' ''search_web_for_blogs''
           (Undecodable (JNote ''argument_parse_failed'' [JStr ''search_web_for_blogs'']))],
      exec = \<lparr>final_structured_blog_data = [],
               browser = \<lparr>driver = False, browser_instance_user_count = 0\<rparr>,
               world = (), status_log = []\<rparr>,
      release_log = [True], saved = [], turn_count = 20\<rparr>"

section \<open>Reference definitions from the specification\<close>

definition spec_blog_id :: "string \<Rightarrow> string \<Rightarrow> string" where
  \<comment> \<open>the specification's identifier derivation, word by word: strip the scheme, strip a
      \<open>www.\<close> prefix, replace non-alphanumeric host characters with an underscore, append
      a slug of the first 20 alphanumeric characters of the lowercased name\<close>
  "spec_blog_id url name =
     (let host = takeWhile (\<lambda>c. c \<noteq> CHR ''/'') (strip_scheme url);
          host = (if prefix ''www.'' host then drop 4 host else host)
      in map (\<lambda>c. if is_alnum c then c else CHR ''_'') host
         @ ''_'' @ take 20 (filter is_alnum (lower name)))"

definition amended_blog_id :: "string \<Rightarrow> string \<Rightarrow> string" where
  \<comment> \<open>the derivation as amended: every occurrence of \<open>www.\<close> goes, only \<open>.\<close> and
      \<open>-\<close> become underscores, and an empty name adds nothing\<close>
  "amended_blog_id url name =
     (let host = takeWhile (\<lambda>c. c \<noteq> CHR ''/'') (strip_scheme url);
          host = replace_str ''www.'' [] host
      in map (\<lambda>c. if c = CHR ''.'' \<or> c = CHR ''-'' then CHR ''_'' else c) host
         @ (if name = [] then [] else ''_'' @ take 20 (filter is_alnum (lower name))))"

fun first_non_empty :: "(string \<times> jval) list \<Rightarrow> string list \<Rightarrow> jval" where
  \<comment> \<open>the specification's field mapping, word by word: the first non-empty value found
      when scanning the ordered source keys, and the sentinel when there is none\<close>
  "first_non_empty raw [] = JStr ''Not Found''"
| "first_non_empty raw (k # ks) =
     (case map_of raw k of
        Some v \<Rightarrow> if v \<noteq> JNull \<and> v \<noteq> JStr [] then v else first_non_empty raw ks
      | None \<Rightarrow> first_non_empty raw ks)"

definition non_empty :: "jval \<Rightarrow> bool" where
  \<comment> \<open>\<open>found_value is not None and found_value != ""\<close>\<close>
  "non_empty v = (v \<noteq> JNull \<and> v \<noteq> JStr [])"

definition blank :: "jval option \<Rightarrow> bool" where
  \<comment> \<open>a field the last loop overwrites: absent, \<open>None\<close> or \<open>""\<close>\<close>
  "blank x = (x = None \<or> x = Some JNull \<or> x = Some (JStr []))"

section \<open>Strings: helper lemmas\<close>

lemma replace_str_char: "replace_str [a] [b] s = map (\<lambda>c. if c = a then b else c) s"
  by (induction s) auto

lemma filter_alnum_space_underscore:
  "filter is_alnum (map (\<lambda>c. if c = CHR '' '' then CHR ''_'' else c) s) = filter is_alnum s"
  by (induction s) (auto simp: is_alnum_def)

section \<open>Browser use count\<close>

text \<open>
  C5. The use count should never be negative. The clamp to zero sits in the \<open>elif\<close>
  branch of \<open>_maybe_close_browser\<close>, which a forced close never reaches: after one
  acquire and two forced releases (the calls \<open>run_agent_for_keywords\<close> makes when the
  run ends with a finalize tool call) the stored count is \<open>-1\<close>.
\<close>

theorem use_count_negative_after_forced_close:
  "browser_instance_user_count
     (maybe_close_browser True True
        (maybe_close_browser True True (snd (ensure_browser True new_browser_controller)))) = - 1"
  by (simp add: maybe_close_browser_def ensure_browser_def new_browser_controller_def)

section \<open>Identifier derivation\<close>

text \<open>
  C9, as stated: the derived identifier equals the specification's reference algorithm.
  It does not when the host holds a character other than a letter, a digit, \<open>.\<close> and
  \<open>-\<close>: a port's colon stays.
\<close>

theorem derive_blog_id_differs_from_spec:
  "derive_blog_id (JStr ''https://example.com:8080/blog'') (JStr ''Test Blog'')
     \<noteq> spec_blog_id ''https://example.com:8080/blog'' ''Test Blog''"
  by code_simp

text \<open>
  C9, amended: for every URL and name the identifier is a function of the pair alone
  (the model is a HOL function, the source reads no state), and it is: a leading
  \<open>http://\<close> or \<open>https://\<close> stripped, the text up to the first \<open>/\<close> kept, every
  occurrence of \<open>www.\<close> deleted, each \<open>.\<close> and \<open>-\<close> replaced by an underscore, and,
  for a non-empty name, an underscore and the first 20 alphanumeric characters of the
  lowercased name appended.
\<close>

theorem derive_blog_id_amended:
  "derive_blog_id (JStr url) (JStr name) = amended_blog_id url name"
  by (simp add: amended_blog_id_def blog_id_part_def name_part_def replace_str_char
        filter_alnum_space_underscore Let_def)

theorem derive_blog_id_amended_witness:
  "derive_blog_id (JStr ''https://www.example.com/blog1'') (JStr ''Test Blog'') = ''example_com_testblog''"
  using derive_blog_id_amended [of "''https://www.example.com/blog1''" "''Test Blog''"]
  by (simp add: amended_blog_id_def strip_scheme_def lower_def lower_char_def is_alnum_def)

section \<open>Field mapping\<close>

lemma map_of_map_upd:
  "map_of (map (\<lambda>(k', v'). if k' = k then (k', v) else (k', v')) d) x =
     (if x = k then (if k \<in> fst ` set d then Some v else None) else map_of d x)"
  by (induction d) (force simp: image_iff split: if_splits)+

lemma map_of_dict_set: "map_of (dict_set d k v) = (map_of d)(k \<mapsto> v)"
proof (cases "k \<in> fst ` set d")
  case True
  then show ?thesis by (auto simp: dict_set_def fun_eq_iff map_of_map_upd)
next
  case False
  then have "map_of d k = None" by (simp add: map_of_eq_None_iff)
  with False show ?thesis
    by (auto simp: dict_set_def map_add_def fun_eq_iff split: option.splits)
qed

lemma map_of_map_field:
  "map_of (map_field raw d (t, ks)) =
     (if t \<in> set DATA_FIELDS_TO_EXTRACT \<and> non_empty (find_source raw ks)
      then (map_of d)(t \<mapsto> (if t = ''total_posts'' then py_str (find_source raw ks) else find_source raw ks))
      else map_of d)"
  by (simp add: map_field_def Let_def map_of_dict_set non_empty_def)

lemma foldl_map_field_other:
  "f \<notin> fst ` set tbl \<Longrightarrow> map_of (foldl (map_field raw) d tbl) f = map_of d f"
proof (induction tbl arbitrary: d)
  case Nil then show ?case by simp
next
  case (Cons e tbl)
  obtain t ks where e: "e = (t, ks)" by (cases e)
  from Cons.prems have "f \<noteq> t" "f \<notin> fst ` set tbl" by (auto simp: e)
  then show ?case using Cons.IH [of "map_field raw d e"]
    by (simp add: e map_of_map_field)
qed

lemma foldl_map_field_at:
  "distinct (map fst tbl) \<Longrightarrow> (f, ks) \<in> set tbl \<Longrightarrow>
   map_of (foldl (map_field raw) d tbl) f =
     (if f \<in> set DATA_FIELDS_TO_EXTRACT \<and> non_empty (find_source raw ks)
      then Some (if f = ''total_posts'' then py_str (find_source raw ks) else find_source raw ks)
      else map_of d f)"
proof (induction tbl arbitrary: d)
  case Nil then show ?case by simp
next
  case (Cons e tbl)
  obtain t ks' where e: "e = (t, ks')" by (cases e)
  show ?case
  proof (cases "(f, ks) = e")
    case True
    then have "f \<notin> fst ` set tbl" using Cons.prems(1) by (auto simp: e)
    then show ?thesis using True
      by (simp add: foldl_map_field_other e map_of_map_field)
  next
    case False
    then have in_tl: "(f, ks) \<in> set tbl" using Cons.prems(2) by auto
    then have "f \<noteq> t" using Cons.prems(1) by (force simp: e)
    then show ?thesis using Cons.IH [of "map_field raw d e"] in_tl Cons.prems(1)
      by (simp add: e map_of_map_field)
  qed
qed

lemma map_of_not_found_fill:
  "map_of (not_found_fill d g) =
     (if blank (map_of d g) then (map_of d)(g \<mapsto> JStr ''Not Found'') else map_of d)"
  by (auto simp: not_found_fill_def dict_get_def map_of_dict_set blank_def split: option.splits)

lemma foldl_not_found_fill:
  "map_of (foldl not_found_fill d fs) f =
     (if f \<in> set fs \<and> blank (map_of d f) then Some (JStr ''Not Found'') else map_of d f)"
proof (induction fs arbitrary: d)
  case Nil then show ?case by simp
next
  case (Cons g fs)
  have "map_of (foldl not_found_fill (not_found_fill d g) fs) f =
     (if f \<in> set fs \<and> blank (map_of (not_found_fill d g) f) then Some (JStr ''Not Found'')
      else map_of (not_found_fill d g) f)"
    by (rule Cons.IH)
  then show ?case
    by (auto simp: map_of_not_found_fill blank_def)
qed


lemma show_nat_not_Nil: "show_nat n \<noteq> []"
  by (subst show_nat.simps) simp

lemma py_str_not_blank: "v \<noteq> JStr [] \<Longrightarrow> \<not> blank (Some (py_str v))"
  by (cases v) (auto simp: blank_def show_int_def show_nat_not_Nil)

lemma table_fields:
  "(f, ks) \<in> set field_mapping_table \<Longrightarrow> f \<in> set DATA_FIELDS_TO_EXTRACT \<and> f \<noteq> ''blog_id''"
  by (auto simp: field_mapping_table_def DATA_FIELDS_TO_EXTRACT_def)

lemma table_distinct: "distinct (map fst field_mapping_table)"
  by (simp add: field_mapping_table_def)

lemma initial_fields:
  "f \<in> set DATA_FIELDS_TO_EXTRACT \<Longrightarrow>
   map_of (dict_set (map (\<lambda>field. (field, JStr ''Not Found'')) DATA_FIELDS_TO_EXTRACT) ''blog_url'' url) f
     = Some (if f = ''blog_url'' then url else JStr ''Not Found'')"
  by (auto simp: map_of_dict_set map_of_map_restrict restrict_map_def)

text \<open>
  C8. Each field of the structured record should be the first non-empty value among the
  field's source keys, as the function's docstring promises for alternative names
  (\<open>title\<close> for \<open>blog_name\<close>). The scan stops at the first source key that is
  present, and the test for an empty value comes after the \<open>break\<close>: for the mapping
  \<open>{"blog_name": "", "title": "X"}\<close> the record's \<open>blog_name\<close> is \<open>Not Found\<close>,
  where the first non-empty value is \<open>X\<close>.
\<close>

theorem structure_blog_info_skips_later_alias:
  "dict_get (structure_blog_info (JObj [(''blog_name'', JStr []), (''title'', JStr ''X'')])
      (JStr ''https://a.b/c'')) ''blog_name'' = JStr ''Not Found''
   \<and> first_non_empty [(''blog_name'', JStr []), (''title'', JStr ''X'')]
      [''blog_name'', ''title'', ''site_title'', ''website_name'', ''name'', ''blog_title''] = JStr ''X''"
  by code_simp

text \<open>
  What the code computes for a field of the mapping table: the value under the first
  source key that is present, when that value is neither \<open>None\<close> nor the empty string
  (\<open>total_posts\<close> converted with \<open>str\<close>); otherwise the page's URL for \<open>blog_url\<close>,
  and \<open>Not Found\<close> for every other field.
\<close>

lemma structure_blog_info_field:
  assumes "(f, ks) \<in> set field_mapping_table"
  shows "dict_get (structure_blog_info (JObj raw) url) f =
     (let found_value = find_source raw ks
      in if found_value \<noteq> JNull \<and> found_value \<noteq> JStr []
         then (if f = ''total_posts'' then py_str found_value else found_value)
         else if f = ''blog_url'' \<and> url \<noteq> JNull \<and> url \<noteq> JStr [] then url
         else JStr ''Not Found'')"
proof -
  define d0 where "d0 = dict_set (map (\<lambda>field. (field, JStr ''Not Found'')) DATA_FIELDS_TO_EXTRACT) ''blog_url'' url"
  define d1 where "d1 = foldl (map_field raw) d0 field_mapping_table"
  define d2 where "d2 = dict_set d1 ''blog_id''
     (JStr (derive_blog_id url (dict_get_default d1 ''blog_name'' (JStr ''Unknown''))))"
  define v where "v = find_source raw ks"
  from assms have f: "f \<in> set DATA_FIELDS_TO_EXTRACT" "f \<noteq> ''blog_id''"
    using table_fields by blast+
  have m0: "map_of d0 f = Some (if f = ''blog_url'' then url else JStr ''Not Found'')"
    unfolding d0_def using f(1) by (rule initial_fields)
  have m1: "map_of d1 f =
      (if non_empty v then Some (if f = ''total_posts'' then py_str v else v) else map_of d0 f)"
    unfolding d1_def v_def using foldl_map_field_at [OF table_distinct assms, of raw d0] f(1)
    by simp
  have m2: "map_of d2 f = map_of d1 f"
    unfolding d2_def using f(2) by (simp add: map_of_dict_set)
  have res: "structure_blog_info (JObj raw) url = foldl not_found_fill d2 DATA_FIELDS_TO_EXTRACT"
    by (simp add: structure_blog_info_def d0_def d1_def d2_def Let_def)
  have m3: "map_of (structure_blog_info (JObj raw) url) f =
      (if blank (map_of d2 f) then Some (JStr ''Not Found'') else map_of d2 f)"
    unfolding res using f(1) by (simp add: foldl_not_found_fill)
  show ?thesis
  proof (cases "non_empty v")
    case True
    then have "\<not> blank (map_of d2 f)"
      using py_str_not_blank [of v] by (auto simp: m2 m1 non_empty_def blank_def)
    with True show ?thesis
      by (simp add: dict_get_def m3 m2 m1 v_def [symmetric] non_empty_def Let_def)
  next
    case False
    then have m2': "map_of d2 f = Some (if f = ''blog_url'' then url else JStr ''Not Found'')"
      by (simp add: m2 m1 m0)
    have nf: "\<not> blank (Some (JStr ''Not Found''))"
      by (simp add: blank_def)
    from False have nv: "\<not> (v \<noteq> JNull \<and> v \<noteq> JStr [])"
      by (simp add: non_empty_def)
    have r: "dict_get (structure_blog_info (JObj raw) url) f =
        (if f = ''blog_url'' \<and> url \<noteq> JNull \<and> url \<noteq> JStr [] then url else JStr ''Not Found'')"
    proof -
      define init where "init = (if f = ''blog_url'' then url else JStr ''Not Found'')"
      have "map_of d2 f = Some init" by (simp add: m2' init_def)
      then have "dict_get (structure_blog_info (JObj raw) url) f =
          (if blank (Some init) then JStr ''Not Found'' else init)"
        by (simp add: dict_get_def m3)
      then show ?thesis by (auto simp: init_def blank_def)
    qed
    show ?thesis
    proof -
      have nv': "\<not> (find_source raw ks \<noteq> JNull \<and> find_source raw ks \<noteq> JStr [])"
        using nv unfolding v_def by blast
      show ?thesis
        unfolding r Let_def by (simp only: nv' if_False)
    qed
  qed
qed

lemma structure_blog_info_field_example:
  "(''total_posts'', [''total_posts'', ''total_posts_info'', ''post_count'', ''article_count'',
                        ''number_of_posts'', ''posts_count'']) \<in> set field_mapping_table \<and>
   dict_get (structure_blog_info (JObj [(''post_count'', JInt 12)]) (JStr ''https://a.b/c'')) ''total_posts''
     = JStr ''12''"
proof -
  have h: "(''total_posts'', [''total_posts'', ''total_posts_info'', ''post_count'', ''article_count'',
                        ''number_of_posts'', ''posts_count'']) \<in> set field_mapping_table"
    by (simp add: field_mapping_table_def)
  have "show_int 12 = ''12''" by code_simp
  then show ?thesis
    using h structure_blog_info_field [OF h, of "[(''post_count'', JInt 12)]" "JStr ''https://a.b/c''"]
    by simp
qed

section \<open>Narrow fallback of the response interpreter\<close>

lemma not_prefix_replicate: "c \<noteq> a \<Longrightarrow> \<not> prefix (c # k) (replicate n a)"
  by (cases n) auto

lemma replace_str_replicate:
  "c \<noteq> a \<Longrightarrow> replace_str (c # k) new (replicate n a) = replicate n a"
  by (induction n) (auto simp: not_prefix_replicate)

lemma re_search_replicate:
  assumes "\<And>k. m (replicate k a) = None"
  shows "re_search m (replicate n a) = None"
proof (induction n)
  case 0
  show ?case using assms [of 0] by simp
next
  case (Suc n)
  show ?case using assms [of "Suc n"] Suc by simp
qed

lemma key_colon_quote_replicate: "a \<noteq> dquote \<Longrightarrow> key_colon_quote key (replicate k a) = None"
  by (cases k) (auto simp: key_colon_quote_def)

lemma strip_no_space_ends:
  assumes "pre \<noteq> []" and c: "\<not> is_space (hd pre)" and a: "\<not> is_space a"
  shows "strip (pre @ replicate (Suc n) a) = pre @ replicate (Suc n) a"
proof -
  obtain c cs where pre: "pre = c # cs" using assms(1) by (cases pre) auto
  have "rev (pre @ replicate (Suc n) a) = a # (replicate n a @ rev cs @ [c])"
    by (simp add: pre replicate_append_same)
  then have "dropWhile is_space (rev (pre @ replicate (Suc n) a)) = a # (replicate n a @ rev cs @ [c])"
    using a by simp
  then have "strip (pre @ replicate (Suc n) a) = dropWhile is_space (rev (a # (replicate n a @ rev cs @ [c])))"
    by (simp add: strip_def)
  also have "rev (a # (replicate n a @ rev cs @ [c])) = pre @ replicate (Suc n) a"
    by (simp add: pre replicate_append_same)
  finally show ?thesis using c by (simp add: pre)
qed

lemma n2001: "(2001::nat) = Suc 2000"
  by simp

lemma text_at_replicate: "text_at (replicate k (CHR ''a'')) = None"
  by (simp add: text_at_def key_colon_quote_replicate dquote_def)

lemma url_at_replicate: "url_at (replicate k (CHR ''a'')) = None"
  by (simp add: url_at_def key_colon_quote_replicate dquote_def)

lemma markdown_at_replicate: "markdown_at (replicate k (CHR ''a'')) = None"
  by (simp add: markdown_at_def not_prefix_replicate)

lemma re_search_text_replicate: "re_search text_at (replicate n (CHR ''a'')) = None"
  by (rule re_search_replicate) (rule text_at_replicate)

lemma re_search_url_replicate: "re_search url_at (replicate n (CHR ''a'')) = None"
  by (rule re_search_replicate) (rule url_at_replicate)

lemma re_search_markdown_replicate: "re_search markdown_at (replicate n (CHR ''a'')) = None"
  by (rule re_search_replicate) (rule markdown_at_replicate)

lemma long_text_contains: "contains ''extract_blog_fields_from_text'' long_text_request"
  by (simp add: long_text_request_def extract_request_head_def)

lemma long_text_match: "text_match long_text_request = Some (replicate 2001 (CHR ''a''))"
  by (simp add: text_match_def long_text_request_def extract_request_head_def text_at_def
        key_colon_quote_def skip_space_def dquote_def is_space_def)

lemma long_text_url: "url_match long_text_request = None"
  by (simp add: url_match_def long_text_request_def extract_request_head_def url_at_def
        key_colon_quote_def skip_space_def dquote_def is_space_def not_prefix_replicate
        re_search_url_replicate)

lemma long_text_parse: "parse_json_content plain_helpers long_text_request = Inr JNull"
proof -
  have s: "strip long_text_request = long_text_request"
    unfolding long_text_request_def n2001
    by (rule strip_no_space_ends) (simp_all add: extract_request_head_def is_space_def)
  have m: "markdown_match long_text_request = None"
    by (simp add: markdown_match_def long_text_request_def extract_request_head_def markdown_at_def
          dquote_def not_prefix_replicate re_search_markdown_replicate)
  have b: "\<not> prefix ''{'' long_text_request"
    by (simp add: long_text_request_def extract_request_head_def)
  show ?thesis
    by (simp add: parse_json_content_def s m b Let_def)
qed

lemma fetched_history_url: "recent_url (rev fetched_history) = Inr (JStr ''https://a.b/c'')"
  by code_simp


lemma long_unescape:
  "replace_str [backslash, dquote] [dquote]
     (replace_str [backslash, CHR ''n''] [newline] (replicate 2001 (CHR ''a'')))
   = replicate 2001 (CHR ''a'')"
  by (simp add: replace_str_replicate backslash_def)

lemma url_request_unescape:
  "replace_str [backslash, dquote] [dquote]
     (replace_str [backslash, CHR ''n''] [newline] (''line'' @ [backslash] @ ''nbreak''))
   = ''line'' @ [newline] @ ''break''"
  by code_simp

lemma url_request_facts:
  "parse_json_content plain_helpers url_request = Inr JNull"
  "contains ''extract_blog_fields_from_text'' url_request"
  "text_match url_request = Some (''line'' @ [backslash] @ ''nbreak'')"
  "url_match url_request = Some ''https://x.y/z''"
  by code_simp+


lemma recent_url_last_successful_fetch:
  assumes "\<forall>m \<in> set later. \<forall>j c. m \<noteq> Tool j ''get_webpage_content_and_interact'' c"
      and "dict_get d ''status'' = JStr ''success''"
  shows "recent_url (rev (earlier @ [Tool i ''get_webpage_content_and_interact'' (Dumped (JObj d))] @ later))
           = Inr (if truthy (dict_get d ''url'') then dict_get d ''url'' else dict_get d ''final_url'')"
  using assms
proof (induction later rule: rev_induct)
  case Nil
  then show ?case by simp
next
  case (snoc m later)
  then show ?case by (cases m) auto
qed

text \<open>
  C6, as stated: the fallback synthesizes one extraction invocation when both a
  \<open>text_content\<close> value and a URL value are recoverable from the text, and none when
  either is absent. With a \<open>text_content\<close> value and no URL in the text (and nothing
  parsed by the earlier strategies) the loop still gets one invocation, for the URL
  \<open>unknown_url\<close>.
\<close>

theorem narrow_fallback_without_url:
  "contains ''extract_blog_fields_from_text'' text_only_request \<and>
   parse_json_content plain_helpers text_only_request = Inr JNull \<and>
   text_match text_only_request = Some ''hello world'' \<and>
   url_match text_only_request = None \<and>
   calls_from_content plain_helpers [] text_only_request =
     Inr [\<lparr>tc_id = ''call_from_content_0'', tc_name = ''extract_blog_fields_from_text'',
           tc_arguments = Json_string (JObj [(''text_content'', JStr ''hello world''),
                                             (''original_url'', JStr ''unknown_url'')])\<rparr>]"
  by code_simp

text \<open>
  C6, amended: for every assistant text that names the extraction tool, in which the
  earlier strategies returned nothing and raised nothing, and with a history whose scan
  raises nothing, the fallback synthesizes exactly one extraction invocation when a
  \<open>text_content\<close> value is recoverable from the text, and none when it is not. The
  invocation's text is the recovered value with \<open>\n\<close> and \<open>\"\<close> unescaped, cut to
  its first 2000 characters followed by \<open>...[TRUNCATED]\<close> when it is longer; its URL
  is the one recovered from the text, else the URL of the most recent successful page
  fetch in the history, else \<open>unknown_url\<close>.
\<close>

theorem narrow_fallback_calls:
  assumes "parse_json_content h content = Inr p" and "\<not> truthy p"
      and "contains ''extract_blog_fields_from_text'' content"
      and "recent_url (rev history) = Inr r"
  shows "calls_from_content h history content =
     (case text_match content of
        None \<Rightarrow> Inr []
      | Some t \<Rightarrow>
          (let t' = replace_str [backslash, dquote] [dquote]
                      (replace_str [backslash, CHR ''n''] [newline] t);
               args = JObj [(''text_content'',
                             JStr (if length t' > 2000 then take 2000 t' @ ''...[TRUNCATED]'' else t')),
                            (''original_url'',
                             case url_match content of
                               Some u \<Rightarrow> JStr u
                             | None \<Rightarrow> if truthy r then r else JStr ''unknown_url'')]
           in Inr [\<lparr>tc_id = ''call_from_content_'' @ call_hash h args,
                     tc_name = ''extract_blog_fields_from_text'',
                     tc_arguments = Json_string args\<rparr>]))"
proof (cases "text_match content")
  case None
  then have "parse_content h history content = Inr p"
    using assms by (simp add: parse_content_def narrow_fallback_def)
  then show ?thesis using assms(2) None
    by (simp add: calls_from_content_def)
next
  case (Some t)
  then show ?thesis using assms
    by (cases "url_match content")
       (simp_all add: calls_from_content_def parse_content_def narrow_fallback_def Let_def
          dict_get_def TOOLS_SPEC_def truncate_text_def unescape_def)
qed

theorem narrow_fallback_calls_witness:
  "calls_from_content plain_helpers fetched_history long_text_request =
     Inr [\<lparr>tc_id = ''call_from_content_0'', tc_name = ''extract_blog_fields_from_text'',
           tc_arguments = Json_string
             (JObj [(''text_content'', JStr (replicate 2000 (CHR ''a'') @ ''...[TRUNCATED]'')),
                    (''original_url'', JStr ''https://a.b/c'')])\<rparr>] \<and>
   calls_from_content plain_helpers [] url_request =
     Inr [\<lparr>tc_id = ''call_from_content_0'', tc_name = ''extract_blog_fields_from_text'',
           tc_arguments = Json_string
             (JObj [(''text_content'', JStr (''line'' @ [newline] @ ''break'')),
                    (''original_url'', JStr ''https://x.y/z'')])\<rparr>]"
proof -
  have p: "\<not> truthy JNull" by simp
  have hash: "call_hash plain_helpers = (\<lambda>j. ''0'')" by (simp add: plain_helpers_def)
  have r0: "recent_url (rev []) = Inr JNull" by simp
  note first = narrow_fallback_calls [OF long_text_parse p long_text_contains fetched_history_url]
  note second = narrow_fallback_calls [OF url_request_facts(1) p url_request_facts(2) r0]
  have 1: "calls_from_content plain_helpers fetched_history long_text_request =
     Inr [\<lparr>tc_id = ''call_from_content_0'', tc_name = ''extract_blog_fields_from_text'',
           tc_arguments = Json_string
             (JObj [(''text_content'', JStr (replicate 2000 (CHR ''a'') @ ''...[TRUNCATED]'')),
                    (''original_url'', JStr ''https://a.b/c'')])\<rparr>]"
    unfolding first long_text_match long_text_url option.case Let_def long_unescape hash
    by simp
  have 2: "calls_from_content plain_helpers [] url_request =
     Inr [\<lparr>tc_id = ''call_from_content_0'', tc_name = ''extract_blog_fields_from_text'',
           tc_arguments = Json_string
             (JObj [(''text_content'', JStr (''line'' @ [newline] @ ''break'')),
                    (''original_url'', JStr ''https://x.y/z'')])\<rparr>]"
    unfolding second url_request_facts(3,4) option.case Let_def url_request_unescape hash
    by simp
  from 1 2 show ?thesis by (rule conjI)
qed

section \<open>The fetch branch of the dispatcher\<close>




lemma force_extract_is_tool_call:
  "force_extract h env u text hist st =
     snd (execute_tool_call h env ''extract_blog_fields_from_text''
            (JObj [(''text_content'', JStr (take 5000 text)), (''original_url'', JStr u)]) hist st)"
  by (simp add: force_extract_def execute_tool_call_def with_dict_def Let_def)

lemma execute_fetch_success:
  assumes url: "dict_get tool_args ''url'' = JStr u"
      and scheme: "prefix ''http://'' u \<or> prefix ''https://'' u"
      and action: "fetch_action (dict_get tool_args ''action_details'') = Inr (a, s, i)"
      and browse: "browse_website env u a s i (browser st) (world st) = (raw, b, w)"
      and ok: "rr_status raw = ''success''"
  shows "execute_fetch h env tool_args history st =
     (Inr (fetch_success_result u
             (dict_get_default tool_args ''fields_to_extract'' (JList (map JStr DATA_FIELDS_TO_EXTRACT))) raw),
      if fetched_text_length (rr_text_content raw) \<ge> 300
      then force_extract h env u (the (rr_text_content raw)) history
             (st\<lparr>browser := b, world := w\<rparr>)
      else st\<lparr>browser := b, world := w\<rparr>)"
proof -
  from scheme have "u \<noteq> []" by auto
  then show ?thesis
    using url scheme action browse ok
    by (simp add: execute_fetch_def Let_def)
qed

lemma quality_of_fetch_success_result:
  "quality_of (Inr (fetch_success_result u f raw)) = JStr (quality_status (fetched_text_length (rr_text_content raw)))"
  by (simp add: quality_of_def fetch_success_result_def Let_def dict_get_def)

lemma status_of_fetch_success_result:
  "status_of (Inr (fetch_success_result u f raw)) = JStr ''success''"
  by (simp add: status_of_def fetch_success_result_def Let_def dict_get_def)




lemma scripted_browse:
  "browse_website (scripted reply urls page) u JNull JNull JNull (browser initial_state) (world initial_state)
     = (\<lparr>rr_status = ''success'', rr_final_url = u, rr_page_title = ''title'',
          rr_action_performed = JStr ''get_content'', rr_text_content = page,
          rr_used_selector = None, rr_message = None, rr_error_message = JStr []\<rparr>,
        \<lparr>driver = True, browser_instance_user_count = 1\<rparr>, ())"
  by (simp add: browse_website_def scripted_def initial_state_def ensure_browser_def
        maybe_close_browser_def Let_def)




text \<open>
  C10: for every successful fetch whose text classifies as \<open>good\<close>, when the nested
  call of the extraction tool raises an exception or returns an error result, the fetch
  still returns its own result: status \<open>success\<close>, with the content-quality payload of
  the fetched page.
\<close>

theorem fetch_contains_escalation_failure:
  assumes "dict_get tool_args ''url'' = JStr u"
      and "prefix ''http://'' u \<or> prefix ''https://'' u"
      and "fetch_action (dict_get tool_args ''action_details'') = Inr (a, s, i)"
      and "browse_website env u a s i (browser st) (world st) = (raw, b, w)"
      and "rr_status raw = ''success''"
      and "rr_text_content raw = Some text" and "300 \<le> length (strip text)"
      and "escalation = fst (execute_tool_call h env ''extract_blog_fields_from_text''
              (JObj [(''text_content'', JStr (take 5000 text)), (''original_url'', JStr u)])
              history (st\<lparr>browser := b, world := w\<rparr>))"
      and "(\<exists>e. escalation = Inl e) \<or> status_of escalation = JStr ''error''"
  shows "fst (execute_fetch h env tool_args history st) =
           Inr (fetch_success_result u
                  (dict_get_default tool_args ''fields_to_extract'' (JList (map JStr DATA_FIELDS_TO_EXTRACT)))
                  raw)
       \<and> status_of (fst (execute_fetch h env tool_args history st)) = JStr ''success''
       \<and> quality_of (fst (execute_fetch h env tool_args history st)) = JStr ''good''"
  unfolding execute_fetch_success [OF assms(1-5)]
  using assms(6,7)
  by (simp add: quality_of_fetch_success_result status_of_fetch_success_result quality_status_def
        fetched_text_length_def)


theorem fetch_contains_escalation_failure_witness:
  "fst (execute_tool_call plain_helpers (scripted silent [] (Some long_page))
          ''extract_blog_fields_from_text''
          (JObj [(''text_content'', JStr long_page), (''original_url'', JStr ''https://a.b/c'')]) []
          initial_state) = Inl TypeError \<and>
   status_of (fst (execute_fetch plain_helpers (scripted silent [] (Some long_page))
                     [(''url'', JStr ''https://a.b/c'')] [] initial_state)) = JStr ''success'' \<and>
   quality_of (fst (execute_fetch plain_helpers (scripted silent [] (Some long_page))
                     [(''url'', JStr ''https://a.b/c'')] [] initial_state)) = JStr ''good''"
proof -
  have 1: "dict_get [(''url'', JStr ''https://a.b/c'')] ''url'' = JStr ''https://a.b/c''"
    by (simp add: dict_get_def)
  have 2: "prefix ''http://'' ''https://a.b/c'' \<or> prefix ''https://'' ''https://a.b/c''"
    by simp
  have 3: "fetch_action (dict_get [(''url'', JStr ''https://a.b/c'')] ''action_details'')
             = Inr (JNull, JNull, JNull)"
    by (simp add: fetch_action_def dict_get_def)
  note 4 = scripted_browse [of silent "[]" "Some long_page" "''https://a.b/c''"]
  have 5: "rr_status \<lparr>rr_status = ''success'', rr_final_url = ''https://a.b/c'', rr_page_title = ''title'',
          rr_action_performed = JStr ''get_content'', rr_text_content = Some long_page,
          rr_used_selector = None, rr_message = None, rr_error_message = JStr []\<rparr> = ''success''"
    by simp
  have 6: "rr_text_content \<lparr>rr_status = ''success'', rr_final_url = ''https://a.b/c'', rr_page_title = ''title'',
          rr_action_performed = JStr ''get_content'', rr_text_content = Some long_page,
          rr_used_selector = None, rr_message = None, rr_error_message = JStr []\<rparr> = Some long_page"
    by simp
  have 7: "300 \<le> length (strip long_page)"
    by code_simp
  have tk: "take 5000 long_page = long_page"
    by (simp add: long_page_def)
  have st: "initial_state\<lparr>browser := \<lparr>driver = True, browser_instance_user_count = 1\<rparr>, world := ()\<rparr>
              = initial_state"
    by (simp add: initial_state_def)
  have e: "fst (execute_tool_call plain_helpers (scripted silent [] (Some long_page))
          ''extract_blog_fields_from_text''
          (JObj [(''text_content'', JStr long_page), (''original_url'', JStr ''https://a.b/c'')]) []
          initial_state) = Inl TypeError"
    by code_simp
  have 9: "(\<exists>x. fst (execute_tool_call plain_helpers (scripted silent [] (Some long_page))
          ''extract_blog_fields_from_text''
          (JObj [(''text_content'', JStr (take 5000 long_page)), (''original_url'', JStr ''https://a.b/c'')]) []
          (initial_state\<lparr>browser := \<lparr>driver = True, browser_instance_user_count = 1\<rparr>, world := ()\<rparr>))
            = Inl x)
        \<or> status_of (fst (execute_tool_call plain_helpers (scripted silent [] (Some long_page))
          ''extract_blog_fields_from_text''
          (JObj [(''text_content'', JStr (take 5000 long_page)), (''original_url'', JStr ''https://a.b/c'')]) []
          (initial_state\<lparr>browser := \<lparr>driver = True, browser_instance_user_count = 1\<rparr>, world := ()\<rparr>)))
            = JStr ''error''"
    unfolding tk st e by simp
  note t = fetch_contains_escalation_failure [OF 1 2 3 4 5 6 7 refl 9]
  from e t show ?thesis by blast
qed

end
